theory Spec2Isabelle
  imports Complex_Main
begin

section \<open>Numbers, vectors and the visual object\<close>

text \<open>
  JavaScript numbers are modelled as \<^typ>\<open>real\<close>: every statement below is about exact
  arithmetic, not about IEEE rounding.  A \<^verbatim>\<open>Vector2\<close> / \<^verbatim>\<open>Vec2\<close> is a pair of
  coordinates.
\<close>

datatype vec2 = Vec2 (vec_x: real) (vec_y: real)

text \<open>The nine anchor names of the host engine's \<^verbatim>\<open>Anchor\<close> type; an anchor is
  either one of them (a string in the source) or a point.\<close>

datatype anchorName =
  Bot | Botleft | Botright | Center | Left | Right | Top | Topleft | Topright

datatype anchor = Named anchorName | Point vec2

text \<open>
  The game object, as far as the plugin reads and writes it.  The four flags are the
  answers of \<^verbatim>\<open>obj.is("polygon")\<close>, \<^verbatim>\<open>obj.is("rect")\<close>, \<^verbatim>\<open>obj.is("circle")\<close> and
  \<^verbatim>\<open>obj.is("rotate")\<close>; \<open>anchor = None\<close> is an object without an anchor
  (\<^verbatim>\<open>obj.anchor\<close> undefined); \<open>bboxWidth\<close> and \<open>bboxHeight\<close> are the width and
  height of \<^verbatim>\<open>obj.renderArea().bbox()\<close>, which the host engine computes.  The method
  \<^verbatim>\<open>renderArea\<close> comes with the polygon, rectangle and circle components;
  \<open>otherRenderArea\<close> says that some other component of the object (a sprite, a text)
  provides it.
\<close>

record gameObj =
  pos :: vec2
  anchor :: "anchor option"
  angle :: real
  isPolygon :: bool
  isRect :: bool
  isCircle :: bool
  isRotate :: bool
  width :: real
  height :: real
  radius :: real
  pts :: "vec2 list"
  bboxWidth :: real
  bboxHeight :: real
  otherRenderArea :: bool

text \<open>Whether \<^verbatim>\<open>obj.renderArea\<close> is there to be called.\<close>

definition hasRenderArea :: "gameObj \<Rightarrow> bool" where
  "hasRenderArea obj = (isPolygon obj \<or> isRect obj \<or> isCircle obj \<or> otherRenderArea obj)"

section \<open>Coordinate transform\<close>

fun anchorToCenter :: "anchorName \<Rightarrow> real \<times> real" where
  "anchorToCenter Bot = (0, - 0.5)"
| "anchorToCenter Botleft = (0.5, - 0.5)"
| "anchorToCenter Botright = (- 0.5, - 0.5)"
| "anchorToCenter Center = (0, 0)"
| "anchorToCenter Left = (0.5, 0)"
| "anchorToCenter Right = (- 0.5, 0)"
| "anchorToCenter Top = (0, 0.5)"
| "anchorToCenter Topleft = (0.5, 0.5)"
| "anchorToCenter Topright = (- 0.5, 0.5)"

definition getDefaultAnchorFor :: "gameObj \<Rightarrow> anchor" where
  "getDefaultAnchorFor obj = (if isCircle obj then Named Center else Named Topleft)"

text \<open>\<^verbatim>\<open>isVisible ? obj.renderArea().bbox() : new k.Rect(k.vec2(0, 0), 0, 0)\<close>, as the
  pair (width, height).\<close>

definition renderAreaOf :: "gameObj \<Rightarrow> bool \<Rightarrow> real \<times> real" where
  "renderAreaOf obj isVisible = (if isVisible then (bboxWidth obj, bboxHeight obj) else (0, 0))"

definition translateAnchorToCenter :: "gameObj \<Rightarrow> bool \<Rightarrow> vec2" where
  "translateAnchorToCenter obj isVisible =
     (let (w, h) = renderAreaOf obj isVisible;
          a = (case anchor obj of None \<Rightarrow> getDefaultAnchorFor obj | Some a' \<Rightarrow> a');
          (deltaX, deltaY) =
            (case a of
               Named n \<Rightarrow> anchorToCenter n
             | Point p \<Rightarrow> (0.5 - vec_x p, 0.5 - vec_y p))
      in Vec2 (vec_x (pos obj) + w * deltaX) (vec_y (pos obj) + h * deltaY))"

definition translateCenterToAnchor :: "vec2 \<Rightarrow> gameObj \<Rightarrow> bool \<Rightarrow> vec2" where
  "translateCenterToAnchor p obj isVisible =
     (if isPolygon obj then Vec2 (vec_x p) (vec_y p)
      else
        let (w, h) = renderAreaOf obj isVisible;
            a = (case anchor obj of None \<Rightarrow> getDefaultAnchorFor obj | Some a' \<Rightarrow> a');
            (deltaX, deltaY) =
              (case a of
                 Named n \<Rightarrow> anchorToCenter n
               | Point q \<Rightarrow> (0.5 - vec_x q, 0.5 - vec_y q))
        in Vec2 (vec_x p + w * - deltaX) (vec_y p + h * - deltaY))"

text \<open>A polygon of bounding box 10 by 10 at the origin, with no anchor of its own.\<close>

definition polygonAtOrigin :: gameObj where
  "polygonAtOrigin =
     \<lparr> pos = Vec2 0 0, anchor = None, angle = 0,
       isPolygon = True, isRect = False, isCircle = False, isRotate = False,
       width = 0, height = 0, radius = 0,
       pts = [Vec2 0 0, Vec2 10 0, Vec2 10 10, Vec2 0 10],
       bboxWidth = 10, bboxHeight = 10, otherRenderArea = False \<rparr>"

section \<open>The simulation world\<close>

text \<open>
  The physics engine is an external library.  Its world is modelled as a store: rigid
  bodies, colliders and impulse joints under handles, the gravity vector, and a count of
  the calls of \<^verbatim>\<open>world.step()\<close>.  Handles are allocated from counters, so the counters
  also tell how many bodies, colliders and joints were ever created.  The wake-up flags
  the plugin passes are not modelled.
\<close>

datatype bodyKind = Fixed | KinematicVelocityBased | Dynamic

text \<open>Collider descriptors: a box by its half-extents, a ball by its radius, and
  \<open>ConvexHull cs\<close>, the convex hull of the points with the coordinates \<open>cs\<close>
  (\<open>x\<close> and \<open>y\<close> in turn).\<close>

datatype colliderDesc = Cuboid real real | Ball real | ConvexHull "real list"

record rigidBody =
  kind :: bodyKind
  translation :: vec2
  rotation :: real
  bodyGravityScale :: real
  linvel :: vec2
  translationsLocked :: bool
  rotationsLocked :: bool
  attached :: "nat list"

record colliderState =
  shape :: colliderDesc
  parent :: nat
  colliderMass :: real
  restitution :: real

datatype jointData =
  FixedJoint vec2 real vec2 real
| PrismaticJoint vec2 vec2 vec2
| RevoluteJoint vec2 vec2
| RopeJoint real vec2 vec2
| SpringJoint real real real vec2 vec2

record jointState =
  jointParams :: "jointData option"
  body1 :: nat
  body2 :: nat

record world =
  bodies :: "nat \<rightharpoonup> rigidBody"
  colliders :: "nat \<rightharpoonup> colliderState"
  joints :: "nat \<rightharpoonup> jointState"
  nextBody :: nat
  nextCollider :: nat
  nextJoint :: nat
  gravity :: vec2
  stepsTaken :: nat

text \<open>
  The exceptions: \<open>Error msg\<close> is the plugin's own \<^verbatim>\<open>throw new Error(msg)\<close>;
  \<open>TypeError\<close> is JavaScript's exception for a call on \<^verbatim>\<open>null\<close> or \<^verbatim>\<open>undefined\<close>;
  \<open>EngineFault\<close> is a failure raised inside the engine for a handle that is not in the
  world.  The specification calls every exception that ends a creation call a
  ConfigurationError.
\<close>

datatype error = Error string | TypeError | EngineFault

datatype ray = Ray (origin: vec2) (dir: vec2)

text \<open>
  What the plugin cannot decide by itself is a parameter, collected in \<open>engine\<close>: the
  convex hull of a point list (or none), the mass the engine derives for a new collider
  and for a body, the effect of forces and impulses on a body, the ray cast (it answers
  with the handle of the collider hit, if any), and the solver step.
\<close>

record engine =
  convexHull :: "real list \<Rightarrow> colliderDesc option"
  derivedMass :: "colliderDesc \<Rightarrow> real"
  bodyMass :: "world \<Rightarrow> nat \<Rightarrow> real"
  addForceTo :: "world \<Rightarrow> vec2 \<Rightarrow> rigidBody \<Rightarrow> rigidBody"
  applyImpulseTo :: "world \<Rightarrow> vec2 \<Rightarrow> rigidBody \<Rightarrow> rigidBody"
  applyTorqueImpulseTo :: "world \<Rightarrow> real \<Rightarrow> rigidBody \<Rightarrow> rigidBody"
  castRay :: "world \<Rightarrow> ray \<Rightarrow> real \<Rightarrow> bool \<Rightarrow> nat option \<Rightarrow> nat option"
  integrate :: "world \<Rightarrow> world"

definition updBody :: "nat \<Rightarrow> (rigidBody \<Rightarrow> rigidBody) \<Rightarrow> world \<Rightarrow> world" where
  "updBody h f w = w\<lparr>bodies := (bodies w)(h := map_option f (bodies w h))\<rparr>"

definition updCollider :: "nat \<Rightarrow> (colliderState \<Rightarrow> colliderState) \<Rightarrow> world \<Rightarrow> world" where
  "updCollider c f w = w\<lparr>colliders := (colliders w)(c := map_option f (colliders w c))\<rparr>"

text \<open>\<^verbatim>\<open>world.createRigidBody(desc)\<close>: a new body of the descriptor's kind, with the
  descriptor's defaults, under a fresh handle.\<close>

definition createRigidBody :: "world \<Rightarrow> bodyKind \<Rightarrow> world \<times> nat" where
  "createRigidBody w k =
     (w\<lparr>bodies := (bodies w)(nextBody w \<mapsto>
          \<lparr> kind = k, translation = Vec2 0 0, rotation = 0, bodyGravityScale = 1,
            linvel = Vec2 0 0, translationsLocked = False, rotationsLocked = False,
            attached = [] \<rparr>),
        nextBody := Suc (nextBody w)\<rparr>,
      nextBody w)"

text \<open>\<^verbatim>\<open>world.createCollider(desc, body)\<close>: a new collider of that shape, attached to the
  body, under a fresh handle.\<close>

definition createCollider :: "engine \<Rightarrow> world \<Rightarrow> colliderDesc \<Rightarrow> nat \<Rightarrow> world \<times> nat" where
  "createCollider eng w d h =
     (updBody h (\<lambda>b. b\<lparr>attached := attached b @ [nextCollider w]\<rparr>)
        (w\<lparr>colliders := (colliders w)(nextCollider w \<mapsto>
             \<lparr> shape = d, parent = h, colliderMass = derivedMass eng d, restitution = 0 \<rparr>),
           nextCollider := Suc (nextCollider w)\<rparr>),
      nextCollider w)"

definition removeCollider :: "nat \<Rightarrow> world \<Rightarrow> world" where
  "removeCollider c w =
     (case colliders w c of
        None \<Rightarrow> w
      | Some cs \<Rightarrow>
          updBody (parent cs) (\<lambda>b. b\<lparr>attached := removeAll c (attached b)\<rparr>)
            (w\<lparr>colliders := (colliders w)(c := None)\<rparr>))"

definition removeRigidBody :: "nat \<Rightarrow> world \<Rightarrow> world" where
  "removeRigidBody h w = w\<lparr>bodies := (bodies w)(h := None)\<rparr>"

text \<open>\<^verbatim>\<open>world.createImpulseJoint(params, body1, body2, wakeUp)\<close>: the engine starts by
  calling a method of the joint data, which for \<^verbatim>\<open>null\<close> is a \<open>TypeError\<close> before
  anything is added; otherwise the joint is added under a fresh handle.\<close>

definition createImpulseJoint ::
  "engine \<Rightarrow> world \<Rightarrow> jointData option \<Rightarrow> nat \<Rightarrow> nat \<Rightarrow> error + (world \<times> nat)" where
  "createImpulseJoint eng w params h1 h2 =
     (case params of
        None \<Rightarrow> Inl TypeError
      | Some d \<Rightarrow>
          Inr (w\<lparr>joints := (joints w)(nextJoint w \<mapsto>
                    \<lparr> jointParams = Some d, body1 = h1, body2 = h2 \<rparr>),
                 nextJoint := Suc (nextJoint w)\<rparr>,
               nextJoint w))"

definition removeImpulseJoint :: "nat \<Rightarrow> world \<Rightarrow> world" where
  "removeImpulseJoint j w = w\<lparr>joints := (joints w)(j := None)\<rparr>"

text \<open>\<^verbatim>\<open>world.step()\<close>: one solver step, counted.\<close>

definition step :: "engine \<Rightarrow> world \<Rightarrow> world" where
  "step eng w = (integrate eng w)\<lparr>stepsTaken := Suc (stepsTaken w)\<rparr>"

section \<open>The body adapter\<close>

text \<open>\<^verbatim>\<open>RapierBodyOptions\<close>: every field may be absent, and so may the options.\<close>

record rapierBodyOptions =
  optIsStatic :: "bool option"
  optKinematic :: "bool option"
  optMass :: "real option"
  optJumpPower :: "real option"
  optBounciness :: "real option"
  optGravityScale :: "real option"

text \<open>\<^verbatim>\<open>opts?.field\<close>.\<close>

definition optField :: "'o option \<Rightarrow> ('o \<Rightarrow> 'a option) \<Rightarrow> 'a option" where
  "optField opts f = (case opts of None \<Rightarrow> None | Some o' \<Rightarrow> f o')"

text \<open>\<^verbatim>\<open>value ?? default\<close>.\<close>

definition orElse :: "'a option \<Rightarrow> 'a \<Rightarrow> 'a" where
  "orElse v d = (case v of None \<Rightarrow> d | Some v' \<Rightarrow> v')"

text \<open>
  The game object that carries the component (\<^verbatim>\<open>this\<close> in the component's methods),
  together with the component's closure variables \<^verbatim>\<open>rbody\<close> and \<^verbatim>\<open>collider\<close> and its
  property \<^verbatim>\<open>jumpPower\<close>.
\<close>

record adapter =
  self :: gameObj
  rbody :: "nat option"
  collider :: "nat option"
  jumpPower :: real

text \<open>\<^verbatim>\<open>rapierBody(opts)\<close>, used on the object \<open>ob\<close>: nothing is created yet.\<close>

definition rapierBody :: "rapierBodyOptions option \<Rightarrow> gameObj \<Rightarrow> adapter" where
  "rapierBody opts ob =
     \<lparr> self = ob, rbody = None, collider = None,
       jumpPower = orElse (optField opts optJumpPower) 100 \<rparr>"

definition convertPolygonPts :: "vec2 list \<Rightarrow> real list" where
  "convertPolygonPts ps = concat (map (\<lambda>pt. [vec_x pt, vec_y pt]) ps)"

text \<open>
  \<^verbatim>\<open>ensureBody\<close>.  The result \<open>Some e\<close> is the exception thrown; the world and the
  adapter are returned as the exception leaves them (the body is created and assigned
  before the collider is attempted).  The component's methods are modelled on a world
  that \<^verbatim>\<open>load()\<close> has made, as the source types it; only the stepper tests for it.
\<close>

definition ensureBody ::
  "engine \<Rightarrow> rapierBodyOptions option \<Rightarrow> world \<Rightarrow> adapter \<Rightarrow> error option \<times> world \<times> adapter"
  where
  "ensureBody eng opts w a =
     (case rbody a of
        Some _ \<Rightarrow> (None, w, a)
      | None \<Rightarrow>
          let ob0 = self a;
              isVisible = (isPolygon ob0 \<or> isRect ob0 \<or> isCircle ob0);
              ob = (if \<not> isRotate ob0 then ob0\<lparr>isRotate := True, angle := 0\<rparr> else ob0);
              desc = (if optField opts optIsStatic = Some True then Fixed
                      else if optField opts optKinematic = Some True then KinematicVelocityBased
                      else Dynamic);
              (w1, h) = createRigidBody w desc;
              w2 = updBody h (\<lambda>b. b\<lparr>rotation := angle ob\<rparr>) w1;
              w3 = updBody h
                     (\<lambda>b. b\<lparr>bodyGravityScale := orElse (optField opts optGravityScale) 1\<rparr>) w2;
              w4 = updBody h (\<lambda>b. b\<lparr>translation := translateAnchorToCenter ob isVisible\<rparr>) w3;
              a1 = a\<lparr>self := ob, rbody := Some h\<rparr>;
              m = orElse (optField opts optMass) 1
          in if isVisible then
               (case
                  (if isPolygon ob then
                     (case convexHull eng (convertPolygonPts (pts ob)) of
                        None \<Rightarrow> Inl (Error ''polygon is not convex'')
                      | Some hullDesc \<Rightarrow> Inr (createCollider eng w4 hullDesc h))
                   else if isRect ob then
                     Inr (createCollider eng w4 (Cuboid (width ob / 2) (height ob / 2)) h)
                   else if isCircle ob then
                     Inr (createCollider eng w4 (Ball (radius ob)) h)
                   else Inl (Error ''unreachable''))
                of
                  Inl e \<Rightarrow> (Some e, w4, a1)
                | Inr (w5, c) \<Rightarrow>
                    (None, updCollider c (\<lambda>cs. cs\<lparr>colliderMass := m\<rparr>) w5,
                     a1\<lparr>collider := Some c\<rparr>))
             else (None, w4, a1))"

text \<open>
  The shape of every method that works on the body: \<^verbatim>\<open>ensureBody(this, rbody)\<close>, then
  calls on \<^verbatim>\<open>rbody\<close>.  A call on a body that is no longer in the world is an engine
  fault.
\<close>

definition withBody ::
  "engine \<Rightarrow> rapierBodyOptions option \<Rightarrow> world \<Rightarrow> adapter
   \<Rightarrow> (nat \<Rightarrow> rigidBody \<Rightarrow> world \<Rightarrow> adapter \<Rightarrow> (error + 'r) \<times> world \<times> adapter)
   \<Rightarrow> (error + 'r) \<times> world \<times> adapter" where
  "withBody eng opts w a k =
     (case ensureBody eng opts w a of
        (Some e, w1, a1) \<Rightarrow> (Inl e, w1, a1)
      | (None, w1, a1) \<Rightarrow>
          (case rbody a1 of
             None \<Rightarrow> (Inl EngineFault, w1, a1)
           | Some h \<Rightarrow>
               (case bodies w1 h of
                  None \<Rightarrow> (Inl EngineFault, w1, a1)
                | Some b \<Rightarrow> k h b w1 a1)))"

text \<open>\<^verbatim>\<open>rbody.collider(0)\<close>: the first collider attached to the body.\<close>

definition collider0 :: "world \<Rightarrow> rigidBody \<Rightarrow> error + (nat \<times> colliderState)" where
  "collider0 w b =
     (case attached b of
        [] \<Rightarrow> Inl EngineFault
      | c # _ \<Rightarrow> (case colliders w c of None \<Rightarrow> Inl EngineFault | Some cs \<Rightarrow> Inr (c, cs)))"

definition getBounciness ::
  "engine \<Rightarrow> rapierBodyOptions option \<Rightarrow> world \<Rightarrow> adapter \<Rightarrow> (error + real) \<times> world \<times> adapter"
  where
  "getBounciness eng opts w a =
     withBody eng opts w a (\<lambda>h b w1 a1.
       case collider0 w1 b of
         Inl e \<Rightarrow> (Inl e, w1, a1)
       | Inr (c, cs) \<Rightarrow> (Inr (restitution cs), w1, a1))"

definition setBounciness ::
  "engine \<Rightarrow> rapierBodyOptions option \<Rightarrow> real \<Rightarrow> world \<Rightarrow> adapter
   \<Rightarrow> (error + unit) \<times> world \<times> adapter" where
  "setBounciness eng opts bounciness w a =
     withBody eng opts w a (\<lambda>h b w1 a1.
       case collider0 w1 b of
         Inl e \<Rightarrow> (Inl e, w1, a1)
       | Inr (c, cs) \<Rightarrow> (Inr (), updCollider c (\<lambda>cs. cs\<lparr>restitution := bounciness\<rparr>) w1, a1))"

definition getMass ::
  "engine \<Rightarrow> rapierBodyOptions option \<Rightarrow> world \<Rightarrow> adapter \<Rightarrow> (error + real) \<times> world \<times> adapter"
  where
  "getMass eng opts w a =
     withBody eng opts w a (\<lambda>h b w1 a1. (Inr (bodyMass eng w1 h), w1, a1))"

definition setMass ::
  "engine \<Rightarrow> rapierBodyOptions option \<Rightarrow> real \<Rightarrow> world \<Rightarrow> adapter
   \<Rightarrow> (error + unit) \<times> world \<times> adapter" where
  "setMass eng opts m w a =
     withBody eng opts w a (\<lambda>h b w1 a1.
       case collider0 w1 b of
         Inl e \<Rightarrow> (Inl e, w1, a1)
       | Inr (c, cs) \<Rightarrow> (Inr (), updCollider c (\<lambda>cs. cs\<lparr>colliderMass := m\<rparr>) w1, a1))"

definition getGravityScale ::
  "engine \<Rightarrow> rapierBodyOptions option \<Rightarrow> world \<Rightarrow> adapter \<Rightarrow> (error + real) \<times> world \<times> adapter"
  where
  "getGravityScale eng opts w a =
     withBody eng opts w a (\<lambda>h b w1 a1. (Inr (bodyGravityScale b), w1, a1))"

definition setGravityScale ::
  "engine \<Rightarrow> rapierBodyOptions option \<Rightarrow> real \<Rightarrow> world \<Rightarrow> adapter
   \<Rightarrow> (error + unit) \<times> world \<times> adapter" where
  "setGravityScale eng opts g w a =
     withBody eng opts w a (\<lambda>h b w1 a1.
       (Inr (), updBody h (\<lambda>b. b\<lparr>bodyGravityScale := g\<rparr>) w1, a1))"

text \<open>
  The \<^verbatim>\<open>velocity\<close> getter answers with a proxy around a fresh vector: the proxy keeps
  the body it was made for (\<^verbatim>\<open>_body\<close>) and the vector (\<^verbatim>\<open>target\<close>).
\<close>

record velocityView =
  viewBody :: nat
  target :: vec2

datatype propKey = KeyX | KeyY | KeyOther string

definition getVelocity ::
  "engine \<Rightarrow> rapierBodyOptions option \<Rightarrow> world \<Rightarrow> adapter
   \<Rightarrow> (error + velocityView) \<times> world \<times> adapter" where
  "getVelocity eng opts w a =
     withBody eng opts w a (\<lambda>h b w1 a1.
       (Inr \<lparr> viewBody = h, target = Vec2 (vec_x (linvel b)) (vec_y (linvel b)) \<rparr>, w1, a1))"

text \<open>The proxy's \<^verbatim>\<open>set(target, p, newValue)\<close> trap.  Properties other than \<^verbatim>\<open>x\<close> and
  \<^verbatim>\<open>y\<close> are stored on the vector only, and the vector's coordinates do not change.\<close>

definition viewSet ::
  "propKey \<Rightarrow> real \<Rightarrow> world \<Rightarrow> velocityView \<Rightarrow> (error + unit) \<times> world \<times> velocityView" where
  "viewSet p newValue w v =
     (case p of
        KeyX \<Rightarrow>
          (case bodies w (viewBody v) of
             None \<Rightarrow> (Inl EngineFault, w, v)
           | Some b \<Rightarrow>
               (Inr (),
                updBody (viewBody v) (\<lambda>b'. b'\<lparr>linvel := Vec2 newValue (vec_y (linvel b))\<rparr>) w,
                v\<lparr>target := Vec2 newValue (vec_y (target v))\<rparr>))
      | KeyY \<Rightarrow>
          (case bodies w (viewBody v) of
             None \<Rightarrow> (Inl EngineFault, w, v)
           | Some b \<Rightarrow>
               (Inr (),
                updBody (viewBody v) (\<lambda>b'. b'\<lparr>linvel := Vec2 (vec_x (linvel b)) newValue\<rparr>) w,
                v\<lparr>target := Vec2 (vec_x (target v)) newValue\<rparr>))
      | KeyOther _ \<Rightarrow> (Inr (), w, v))"

definition setVelocity ::
  "engine \<Rightarrow> rapierBodyOptions option \<Rightarrow> vec2 \<Rightarrow> world \<Rightarrow> adapter
   \<Rightarrow> (error + unit) \<times> world \<times> adapter" where
  "setVelocity eng opts vel w a =
     withBody eng opts w a (\<lambda>h b w1 a1.
       (Inr (), updBody h (\<lambda>b'. b'\<lparr>linvel := Vec2 (vec_x vel) (vec_y vel)\<rparr>) w1, a1))"

definition jump ::
  "engine \<Rightarrow> rapierBodyOptions option \<Rightarrow> real option \<Rightarrow> world \<Rightarrow> adapter
   \<Rightarrow> (error + unit) \<times> world \<times> adapter" where
  "jump eng opts pw w a =
     withBody eng opts w a (\<lambda>h b w1 a1.
       let realPower = orElse pw (jumpPower a1)
       in (Inr (), updBody h (applyImpulseTo eng w1 (Vec2 0 (- realPower))) w1, a1))"

text \<open>\<^verbatim>\<open>isGrounded\<close>: after \<^verbatim>\<open>ensureBody\<close> the first call is \<^verbatim>\<open>this.renderArea()\<close>,
  a \<open>TypeError\<close> on an object that has no such method.\<close>

definition isGrounded ::
  "engine \<Rightarrow> rapierBodyOptions option \<Rightarrow> world \<Rightarrow> adapter \<Rightarrow> (error + bool) \<times> world \<times> adapter"
  where
  "isGrounded eng opts w a =
     (case ensureBody eng opts w a of
        (Some e, w1, a1) \<Rightarrow> (Inl e, w1, a1)
      | (None, w1, a1) \<Rightarrow>
          if hasRenderArea (self a1) then
            (let wd = bboxWidth (self a1);
                 ht = bboxHeight (self a1)
             in case rbody a1 of
                  None \<Rightarrow> (Inl EngineFault, w1, a1)
                | Some h \<Rightarrow>
                    (case bodies w1 h of
                       None \<Rightarrow> (Inl EngineFault, w1, a1)
                     | Some b \<Rightarrow>
                         let r = Ray (translation b) (Vec2 (wd / 2) (ht + 1));
                             maxToi = 1;
                             hit = castRay eng w1 r maxToi True (Some h)
                         in (Inr (hit \<noteq> None), w1, a1)))
          else (Inl TypeError, w1, a1))"

definition isFalling ::
  "engine \<Rightarrow> rapierBodyOptions option \<Rightarrow> world \<Rightarrow> adapter \<Rightarrow> (error + bool) \<times> world \<times> adapter"
  where
  "isFalling eng opts w a =
     (case isGrounded eng opts w a of
        (Inl e, w1, a1) \<Rightarrow> (Inl e, w1, a1)
      | (Inr g, w1, a1) \<Rightarrow> (Inr (\<not> g), w1, a1))"

definition getRigidBody ::
  "engine \<Rightarrow> rapierBodyOptions option \<Rightarrow> world \<Rightarrow> adapter \<Rightarrow> (error + nat) \<times> world \<times> adapter"
  where
  "getRigidBody eng opts w a =
     (case ensureBody eng opts w a of
        (Some e, w1, a1) \<Rightarrow> (Inl e, w1, a1)
      | (None, w1, a1) \<Rightarrow>
          (case rbody a1 of
             None \<Rightarrow> (Inl EngineFault, w1, a1)
           | Some h \<Rightarrow> (Inr h, w1, a1)))"

definition lockPosition ::
  "engine \<Rightarrow> rapierBodyOptions option \<Rightarrow> bool option \<Rightarrow> world \<Rightarrow> adapter
   \<Rightarrow> (error + unit) \<times> world \<times> adapter" where
  "lockPosition eng opts locked w a =
     withBody eng opts w a (\<lambda>h b w1 a1.
       (Inr (), updBody h (\<lambda>b'. b'\<lparr>translationsLocked := orElse locked True\<rparr>) w1, a1))"

definition lockRotation ::
  "engine \<Rightarrow> rapierBodyOptions option \<Rightarrow> bool option \<Rightarrow> world \<Rightarrow> adapter
   \<Rightarrow> (error + unit) \<times> world \<times> adapter" where
  "lockRotation eng opts locked w a =
     withBody eng opts w a (\<lambda>h b w1 a1.
       (Inr (), updBody h (\<lambda>b'. b'\<lparr>rotationsLocked := orElse locked True\<rparr>) w1, a1))"

definition addForce ::
  "engine \<Rightarrow> rapierBodyOptions option \<Rightarrow> vec2 \<Rightarrow> world \<Rightarrow> adapter
   \<Rightarrow> (error + unit) \<times> world \<times> adapter" where
  "addForce eng opts vec w a =
     withBody eng opts w a (\<lambda>h b w1 a1.
       (Inr (), updBody h (addForceTo eng w1 (Vec2 (vec_x vec) (vec_y vec))) w1, a1))"

definition applyImpulse ::
  "engine \<Rightarrow> rapierBodyOptions option \<Rightarrow> vec2 \<Rightarrow> world \<Rightarrow> adapter
   \<Rightarrow> (error + unit) \<times> world \<times> adapter" where
  "applyImpulse eng opts vec w a =
     withBody eng opts w a (\<lambda>h b w1 a1.
       (Inr (), updBody h (applyImpulseTo eng w1 (Vec2 (vec_x vec) (vec_y vec))) w1, a1))"

definition applyTorqueImpulse ::
  "engine \<Rightarrow> rapierBodyOptions option \<Rightarrow> real \<Rightarrow> world \<Rightarrow> adapter
   \<Rightarrow> (error + unit) \<times> world \<times> adapter" where
  "applyTorqueImpulse eng opts impulse w a =
     withBody eng opts w a (\<lambda>h b w1 a1.
       (Inr (), updBody h (applyTorqueImpulseTo eng w1 impulse) w1, a1))"

text \<open>The argument forms of the host engine's \<^verbatim>\<open>vec2(...)\<close>: two numbers, a vector,
  one number (for both coordinates), or nothing (the origin).\<close>

datatype vec2Args = ArgsXY real real | ArgsVec vec2 | ArgsNum real | ArgsNone

fun vec2Of :: "vec2Args \<Rightarrow> vec2" where
  "vec2Of (ArgsXY a b) = Vec2 a b"
| "vec2Of (ArgsVec v) = Vec2 (vec_x v) (vec_y v)"
| "vec2Of (ArgsNum n) = Vec2 n n"
| "vec2Of ArgsNone = Vec2 0 0"

definition translate ::
  "engine \<Rightarrow> rapierBodyOptions option \<Rightarrow> vec2Args \<Rightarrow> world \<Rightarrow> adapter
   \<Rightarrow> (error + unit) \<times> world \<times> adapter" where
  "translate eng opts args w a =
     withBody eng opts w a (\<lambda>h b w1 a1.
       (Inr (), updBody h (\<lambda>b'. b'\<lparr>translation := vec2Of args\<rparr>) w1, a1))"

definition translateX ::
  "engine \<Rightarrow> rapierBodyOptions option \<Rightarrow> real \<Rightarrow> world \<Rightarrow> adapter
   \<Rightarrow> (error + unit) \<times> world \<times> adapter" where
  "translateX eng opts xv w a =
     withBody eng opts w a (\<lambda>h b w1 a1.
       (Inr (), updBody h (\<lambda>b'. b'\<lparr>translation := Vec2 xv (vec_y (translation b))\<rparr>) w1, a1))"

definition translateY ::
  "engine \<Rightarrow> rapierBodyOptions option \<Rightarrow> real \<Rightarrow> world \<Rightarrow> adapter
   \<Rightarrow> (error + unit) \<times> world \<times> adapter" where
  "translateY eng opts yv w a =
     withBody eng opts w a (\<lambda>h b w1 a1.
       (Inr (), updBody h (\<lambda>b'. b'\<lparr>translation := Vec2 (vec_x (translation b)) yv\<rparr>) w1, a1))"

definition rad2deg :: "real \<Rightarrow> real" where
  "rad2deg r = r * 180 / pi"

definition update ::
  "engine \<Rightarrow> rapierBodyOptions option \<Rightarrow> world \<Rightarrow> adapter \<Rightarrow> (error + unit) \<times> world \<times> adapter"
  where
  "update eng opts w a =
     (let isVisible = (isPolygon (self a) \<or> isRect (self a) \<or> isCircle (self a))
      in withBody eng opts w a (\<lambda>h b w1 a1.
           let position = translation b;
               translated = translateCenterToAnchor position (self a1) isVisible;
               ob1 = (self a1)\<lparr>pos := Vec2 (vec_x translated) (vec_y translated)\<rparr>;
               ob2 = ob1\<lparr>angle := rad2deg (rotation b)\<rparr>
           in (Inr (), w1, a1\<lparr>self := ob2\<rparr>)))"

definition destroy :: "world \<Rightarrow> adapter \<Rightarrow> world \<times> adapter" where
  "destroy w a =
     (let w1 = (case collider a of Some c \<Rightarrow> removeCollider c w | None \<Rightarrow> w);
          w2 = (case rbody a of Some h \<Rightarrow> removeRigidBody h w1 | None \<Rightarrow> w1)
      in (w2, a))"

text \<open>\<^verbatim>\<open>inspect\<close>: the mass, the gravity scale and the velocity that the text shows (the
  formatting of the text is not modelled).\<close>

definition inspect ::
  "engine \<Rightarrow> rapierBodyOptions option \<Rightarrow> world \<Rightarrow> adapter
   \<Rightarrow> (error + real \<times> real \<times> vec2) \<times> world \<times> adapter" where
  "inspect eng opts w a =
     withBody eng opts w a (\<lambda>h b w1 a1.
       let vel = linvel b
       in (case getMass eng opts w1 a1 of
             (Inl e, w2, a2) \<Rightarrow> (Inl e, w2, a2)
           | (Inr m, w2, a2) \<Rightarrow>
               (case getGravityScale eng opts w2 a2 of
                  (Inl e, w3, a3) \<Rightarrow> (Inl e, w3, a3)
                | (Inr g, w3, a3) \<Rightarrow> (Inr (m, g, vel), w3, a3))))"

text \<open>
  The public operations of the component, as values, and one call of any of them; the
  value an operation returns is dropped, its exception kept.  \<open>WriteVelocity p v\<close> is
  \<^verbatim>\<open>obj.velocity[p] = v\<close>: the getter, then the proxy's trap.
\<close>

datatype bodyOp =
  GetBounciness | SetBounciness real
| GetMass | SetMass real
| GetGravityScale | SetGravityScale real
| GetVelocity | WriteVelocity propKey real | SetVelocity vec2
| Jump "real option"
| IsGrounded | IsFalling
| GetRigidBody
| LockPosition "bool option" | LockRotation "bool option"
| AddForce vec2 | ApplyImpulse vec2 | ApplyTorqueImpulse real
| Translate vec2Args | TranslateX real | TranslateY real
| Update | Inspect

definition outcome :: "(error + 'r) \<times> world \<times> adapter \<Rightarrow> error option \<times> world \<times> adapter" where
  "outcome r =
     (case r of
        (Inl e, w, a) \<Rightarrow> (Some e, w, a)
      | (Inr _, w, a) \<Rightarrow> (None, w, a))"

definition writeVelocity ::
  "engine \<Rightarrow> rapierBodyOptions option \<Rightarrow> propKey \<Rightarrow> real \<Rightarrow> world \<Rightarrow> adapter
   \<Rightarrow> (error + unit) \<times> world \<times> adapter" where
  "writeVelocity eng opts p newValue w a =
     (case getVelocity eng opts w a of
        (Inl e, w1, a1) \<Rightarrow> (Inl e, w1, a1)
      | (Inr v, w1, a1) \<Rightarrow>
          (case viewSet p newValue w1 v of (r, w2, v2) \<Rightarrow> (r, w2, a1)))"

fun runOp ::
  "engine \<Rightarrow> rapierBodyOptions option \<Rightarrow> bodyOp \<Rightarrow> world \<Rightarrow> adapter
   \<Rightarrow> error option \<times> world \<times> adapter" where
  "runOp eng opts GetBounciness w a = outcome (getBounciness eng opts w a)"
| "runOp eng opts (SetBounciness v) w a = outcome (setBounciness eng opts v w a)"
| "runOp eng opts GetMass w a = outcome (getMass eng opts w a)"
| "runOp eng opts (SetMass v) w a = outcome (setMass eng opts v w a)"
| "runOp eng opts GetGravityScale w a = outcome (getGravityScale eng opts w a)"
| "runOp eng opts (SetGravityScale v) w a = outcome (setGravityScale eng opts v w a)"
| "runOp eng opts GetVelocity w a = outcome (getVelocity eng opts w a)"
| "runOp eng opts (WriteVelocity p v) w a = outcome (writeVelocity eng opts p v w a)"
| "runOp eng opts (SetVelocity v) w a = outcome (setVelocity eng opts v w a)"
| "runOp eng opts (Jump pw) w a = outcome (jump eng opts pw w a)"
| "runOp eng opts IsGrounded w a = outcome (isGrounded eng opts w a)"
| "runOp eng opts IsFalling w a = outcome (isFalling eng opts w a)"
| "runOp eng opts GetRigidBody w a = outcome (getRigidBody eng opts w a)"
| "runOp eng opts (LockPosition l) w a = outcome (lockPosition eng opts l w a)"
| "runOp eng opts (LockRotation l) w a = outcome (lockRotation eng opts l w a)"
| "runOp eng opts (AddForce v) w a = outcome (addForce eng opts v w a)"
| "runOp eng opts (ApplyImpulse v) w a = outcome (applyImpulse eng opts v w a)"
| "runOp eng opts (ApplyTorqueImpulse t) w a = outcome (applyTorqueImpulse eng opts t w a)"
| "runOp eng opts (Translate args) w a = outcome (translate eng opts args w a)"
| "runOp eng opts (TranslateX v) w a = outcome (translateX eng opts v w a)"
| "runOp eng opts (TranslateY v) w a = outcome (translateY eng opts v w a)"
| "runOp eng opts Update w a = outcome (update eng opts w a)"
| "runOp eng opts Inspect w a = outcome (inspect eng opts w a)"

text \<open>
  A history of the component: before each operation the host program may change the
  game object in any way (\<open>m\<close>), and an exception does not end the history.
\<close>

fun runOps ::
  "engine \<Rightarrow> rapierBodyOptions option \<Rightarrow> ((gameObj \<Rightarrow> gameObj) \<times> bodyOp) list
   \<Rightarrow> world \<Rightarrow> adapter \<Rightarrow> world \<times> adapter" where
  "runOps eng opts [] w a = (w, a)"
| "runOps eng opts ((m, op) # rest) w a =
     (case runOp eng opts op w (a\<lparr>self := m (self a)\<rparr>) of
        (r, w', a') \<Rightarrow> runOps eng opts rest w' a')"

text \<open>What it means that a world still has the bodies and colliders of an earlier one:
  none was created, the same bodies exist, and every collider has the shape it had.\<close>

definition sameBodies :: "world \<Rightarrow> world \<Rightarrow> bool" where
  "sameBodies w w' \<longleftrightarrow>
     nextBody w' = nextBody w \<and> nextCollider w' = nextCollider w
     \<and> dom (bodies w') = dom (bodies w)
     \<and> dom (colliders w') = dom (colliders w)
     \<and> (\<forall>c. map_option shape (colliders w' c) = map_option shape (colliders w c))"

text \<open>The result of an operation keeps the bodies of the world \<open>w\<close> and the body and
  collider of the adapter \<open>a\<close>.\<close>

definition keeps :: "world \<Rightarrow> adapter \<Rightarrow> 'r \<times> world \<times> adapter \<Rightarrow> bool" where
  "keeps w a res =
     (case res of
        (r, w', a') \<Rightarrow> sameBodies w w' \<and> rbody a' = rbody a \<and> collider a' = collider a)"

section \<open>The joint adapter\<close>

text \<open>
  \<^verbatim>\<open>RapierJointDataOptions\<close> as the object it is at run time: the \<^verbatim>\<open>type\<close> tag (a
  string), the optional frames and anchors, and the fields that the tagged variants
  require (\<open>ropeLength\<close> is the field \<^verbatim>\<open>length\<close>).
\<close>

record rapierJointDataOptions =
  jointType :: string
  frame1 :: "real option"
  frame2 :: "real option"
  anchor1 :: "vec2 option"
  anchor2 :: "vec2 option"
  axis :: vec2
  ropeLength :: real
  restLength :: real
  stiffness :: real
  damping :: real

definition ZERO :: vec2 where
  "ZERO = Vec2 0 0"

text \<open>The conditional chain that builds the joint data; its last branch,
  \<^verbatim>\<open>(null as never)\<close>, is \<open>None\<close>.\<close>

definition jointDataOf :: "rapierJointDataOptions \<Rightarrow> jointData option" where
  "jointDataOf jo =
     (if jointType jo = ''fixed'' then
        Some (FixedJoint (orElse (anchor1 jo) ZERO) (orElse (frame1 jo) 0)
                         (orElse (anchor2 jo) ZERO) (orElse (frame2 jo) 0))
      else if jointType jo = ''prismatic'' then
        Some (PrismaticJoint (orElse (anchor1 jo) ZERO) (orElse (anchor2 jo) ZERO) (axis jo))
      else if jointType jo = ''revolute'' then
        Some (RevoluteJoint (orElse (anchor1 jo) ZERO) (orElse (anchor2 jo) ZERO))
      else if jointType jo = ''rope'' then
        Some (RopeJoint (ropeLength jo) (orElse (anchor1 jo) ZERO) (orElse (anchor2 jo) ZERO))
      else if jointType jo = ''spring'' then
        Some (SpringJoint (restLength jo) (stiffness jo) (damping jo)
                          (orElse (anchor1 jo) ZERO) (orElse (anchor2 jo) ZERO))
      else None)"

text \<open>
  \<^verbatim>\<open>rapierJoint(opts)\<close> for two parents that are different objects, each with the
  options of its own body component.  The arguments of \<^verbatim>\<open>createImpulseJoint\<close> are
  evaluated from left to right: the joint data, the body of the first parent, the body of
  the second.  The result is the joint the adapter keeps.
\<close>

definition rapierJoint ::
  "engine \<Rightarrow> rapierJointDataOptions \<Rightarrow> rapierBodyOptions option \<Rightarrow> rapierBodyOptions option
   \<Rightarrow> world \<Rightarrow> adapter \<Rightarrow> adapter \<Rightarrow> (error + nat) \<times> world \<times> adapter \<times> adapter" where
  "rapierJoint eng jo opts1 opts2 w parent1 parent2 =
     (let params = jointDataOf jo
      in case getRigidBody eng opts1 w parent1 of
           (Inl e, w1, p1) \<Rightarrow> (Inl e, w1, p1, parent2)
         | (Inr h1, w1, p1) \<Rightarrow>
             (case getRigidBody eng opts2 w1 parent2 of
                (Inl e, w2, p2) \<Rightarrow> (Inl e, w2, p1, p2)
              | (Inr h2, w2, p2) \<Rightarrow>
                  (case createImpulseJoint eng w2 params h1 h2 of
                     Inl e \<Rightarrow> (Inl e, w2, p1, p2)
                   | Inr (w3, j) \<Rightarrow> (Inr j, w3, p1, p2))))"

definition destroyJoint :: "nat \<Rightarrow> world \<Rightarrow> world" where
  "destroyJoint j w = removeImpulseJoint j w"

section \<open>The simulation stepper\<close>

record rapierPluginOptions =
  physicsStep :: "real option"

definition PHYSICS_STEP :: "rapierPluginOptions option \<Rightarrow> real" where
  "PHYSICS_STEP opts = orElse (optField opts physicsStep) 5"

text \<open>The stepper's variables \<^verbatim>\<open>acc\<close> and \<^verbatim>\<open>updateCount\<close> (the two timing variables
  of the inspector are not modelled).\<close>

record stepper =
  accumulator :: real
  updateCount :: nat

definition newStepper :: stepper where
  "newStepper = \<lparr> accumulator = 0, updateCount = 0 \<rparr>"

text \<open>The \<^verbatim>\<open>while (acc >= PHYSICS_STEP)\<close> loop.  It need not end, so its result is an
  option: \<open>None\<close> is a loop that runs forever.\<close>

partial_function (option) stepLoop ::
  "engine \<Rightarrow> real \<Rightarrow> world \<Rightarrow> real \<Rightarrow> nat \<Rightarrow> (world \<times> real \<times> nat) option" where
  "stepLoop eng stepInterval w ac n =
     (if ac \<ge> stepInterval
      then stepLoop eng stepInterval (step eng w) (ac - stepInterval) (n + 1)
      else Some (w, ac, n))"

text \<open>The per-frame callback, for a frame with \<^verbatim>\<open>k.dt() = dt\<close> and
  \<^verbatim>\<open>k.getGravity() = g\<close>.  The world is \<open>None\<close> until \<^verbatim>\<open>load()\<close> has made it.\<close>

definition onUpdate ::
  "engine \<Rightarrow> real \<Rightarrow> real \<Rightarrow> real \<Rightarrow> world option \<Rightarrow> stepper
   \<Rightarrow> (world option \<times> stepper) option" where
  "onUpdate eng stepInterval dt g wo s =
     (case wo of
        None \<Rightarrow> Some (None, s)
      | Some w \<Rightarrow>
          (case stepLoop eng stepInterval (w\<lparr>gravity := Vec2 (vec_x (gravity w)) g\<rparr>)
                  (accumulator s + dt * 1000) (updateCount s) of
             None \<Rightarrow> None
           | Some (w', ac, n) \<Rightarrow> Some (Some w', \<lparr> accumulator = ac, updateCount = n \<rparr>)))"

text \<open>A run of frames, each given by its \<open>dt\<close> and the gravity of the moment.\<close>

fun runFrames ::
  "engine \<Rightarrow> real \<Rightarrow> (real \<times> real) list \<Rightarrow> world option \<Rightarrow> stepper
   \<Rightarrow> (world option \<times> stepper) option" where
  "runFrames eng stepInterval [] wo s = Some (wo, s)"
| "runFrames eng stepInterval ((dt, g) # fs) wo s =
     (case onUpdate eng stepInterval dt g wo s of
        None \<Rightarrow> None
      | Some (wo', s') \<Rightarrow> runFrames eng stepInterval fs wo' s')"

text \<open>\<^verbatim>\<open>load()\<close>: the empty world with gravity \<open>(0, 20)\<close>.\<close>

definition load :: world where
  "load = \<lparr> bodies = Map.empty, colliders = Map.empty, joints = Map.empty,
            nextBody = 0, nextCollider = 0, nextJoint = 0,
            gravity = Vec2 0 20, stepsTaken = 0 \<rparr>"

section \<open>Example inputs\<close>

text \<open>An engine for the examples: the hull of three points or more, unit masses,
  impulses added to the velocity, a ray cast that hits nothing, and a solver that leaves
  the world as it is.\<close>

definition plainEngine :: engine where
  "plainEngine =
     \<lparr> convexHull = (\<lambda>ps. if 6 \<le> length ps then Some (ConvexHull ps) else None),
       derivedMass = (\<lambda>d. 1),
       bodyMass = (\<lambda>w h. 1),
       addForceTo = (\<lambda>w v b. b),
       applyImpulseTo =
         (\<lambda>w v b. b\<lparr>linvel := Vec2 (vec_x (linvel b) + vec_x v) (vec_y (linvel b) + vec_y v)\<rparr>),
       applyTorqueImpulseTo = (\<lambda>w t b. b),
       castRay = (\<lambda>w r maxToi solid excluded. None),
       integrate = (\<lambda>w. w) \<rparr>"

text \<open>A rectangle 10 wide and 20 high, anchored at its centre, at the origin; a circle
  of radius 5 with no anchor of its own; and an object with no shape.\<close>

definition rectObj :: gameObj where
  "rectObj =
     \<lparr> pos = Vec2 0 0, anchor = Some (Named Center), angle = 0,
       isPolygon = False, isRect = True, isCircle = False, isRotate = False,
       width = 10, height = 20, radius = 0, pts = [],
       bboxWidth = 10, bboxHeight = 20, otherRenderArea = False \<rparr>"

definition circleObj :: gameObj where
  "circleObj =
     \<lparr> pos = Vec2 3 4, anchor = None, angle = 0,
       isPolygon = False, isRect = False, isCircle = True, isRotate = False,
       width = 0, height = 0, radius = 5, pts = [],
       bboxWidth = 10, bboxHeight = 10, otherRenderArea = False \<rparr>"

definition shapelessObj :: gameObj where
  "shapelessObj =
     \<lparr> pos = Vec2 7 8, anchor = None, angle = 0,
       isPolygon = False, isRect = False, isCircle = False, isRotate = False,
       width = 0, height = 0, radius = 0, pts = [],
       bboxWidth = 0, bboxHeight = 0, otherRenderArea = False \<rparr>"

text \<open>A polygon that is not convex: the vertex \<open>(2, 2)\<close> lies inside the triangle of
  the other three.\<close>

definition dartObj :: gameObj where
  "dartObj = polygonAtOrigin\<lparr>pts := [Vec2 0 0, Vec2 10 0, Vec2 2 2, Vec2 0 10]\<rparr>"

text \<open>A polygon of two points: \<open>plainEngine\<close> has no hull for it.\<close>

definition segmentObj :: gameObj where
  "segmentObj = polygonAtOrigin\<lparr>pts := [Vec2 0 0, Vec2 10 0]\<rparr>"

text \<open>The point of a ray at parameter \<open>t\<close>; a cast with \<^verbatim>\<open>maxToi\<close> looks at the points
  with \<open>0 \<le> t \<le> maxToi\<close>.\<close>

definition pointAt :: "ray \<Rightarrow> real \<Rightarrow> vec2" where
  "pointAt r t =
     Vec2 (vec_x (origin r) + vec_x (dir r) * t) (vec_y (origin r) + vec_y (dir r) * t)"

text \<open>An engine whose world has solid ground from the height \<open>y = g\<close> downwards (\<open>y\<close>
  grows downwards): a cast hits the ground's collider (handle 7) when the ray starts in
  the ground or ends in it.\<close>

definition groundEngine :: "real \<Rightarrow> engine" where
  "groundEngine g =
     plainEngine\<lparr>castRay :=
       (\<lambda>w r maxToi solid excluded.
          if g \<le> vec_y (origin r) \<or> g \<le> vec_y (pointAt r maxToi) then Some 7 else None)\<rparr>"

text \<open>The ray in the words of the specification: from the translation \<open>p\<close> straight
  down, of length \<open>bboxHeight / 2 + 1\<close> (cast with \<^verbatim>\<open>maxToi = 1\<close>).\<close>

definition specGroundRay :: "vec2 \<Rightarrow> gameObj \<Rightarrow> ray" where
  "specGroundRay p ob = Ray p (Vec2 0 (bboxHeight ob / 2 + 1))"

text \<open>Joint options with a tag that is none of the five, and the options of a spring.\<close>

definition weldOptions :: rapierJointDataOptions where
  "weldOptions =
     \<lparr> jointType = ''weld'', frame1 = None, frame2 = None, anchor1 = None, anchor2 = None,
       axis = Vec2 1 0, ropeLength = 0, restLength = 0, stiffness = 0, damping = 0 \<rparr>"

definition springOptions :: rapierJointDataOptions where
  "springOptions =
     \<lparr> jointType = ''spring'', frame1 = None, frame2 = None, anchor1 = None, anchor2 = None,
       axis = Vec2 1 0, ropeLength = 0, restLength = 2, stiffness = 20, damping = 2 \<rparr>"

section \<open>Properties of the coordinate transform\<close>

lemma anchorToCenter_range:
  "\<bar>fst (anchorToCenter n)\<bar> \<le> 1 / 2 \<and> \<bar>snd (anchorToCenter n)\<bar> \<le> 1 / 2"
  by (cases n) simp_all

lemma toAnchor_toCenter_nonpolygon:
  assumes "\<not> isPolygon obj"
  shows "translateCenterToAnchor (translateAnchorToCenter obj v) obj v = pos obj"
  using assms
  by (simp add: translateCenterToAnchor_def translateAnchorToCenter_def Let_def
      split: prod.splits)

lemma toAnchor_polygon_identity:
  assumes "isPolygon obj"
  shows "translateCenterToAnchor p obj v = p"
  using assms by (simp add: translateCenterToAnchor_def)

text \<open>
  Claim C1 (round trip; both directions the identity for polygons).  The round trip
  holds for every object that is not a polygon (\<open>toAnchor_toCenter_nonpolygon\<close>) and
  \<open>translateCenterToAnchor\<close> is the identity for polygons
  (\<open>toAnchor_polygon_identity\<close>), but \<open>translateAnchorToCenter\<close> has no polygon case: for
  the polygon \<open>polygonAtOrigin\<close> it moves the position by half the bounding box, and the
  way back, being the identity, does not undo it.
\<close>

theorem toCenter_polygon_not_identity:
  "translateAnchorToCenter polygonAtOrigin True = Vec2 5 5
   \<and> translateAnchorToCenter polygonAtOrigin True \<noteq> pos polygonAtOrigin
   \<and> translateCenterToAnchor (translateAnchorToCenter polygonAtOrigin True) polygonAtOrigin True
       = Vec2 5 5
   \<and> translateCenterToAnchor (translateAnchorToCenter polygonAtOrigin True) polygonAtOrigin True
       \<noteq> pos polygonAtOrigin"
  by (simp add: translateAnchorToCenter_def translateCenterToAnchor_def renderAreaOf_def
      getDefaultAnchorFor_def polygonAtOrigin_def)

text \<open>
  Claim C6 (anchor table).  The nine named anchors have the deltas of the fixed table; a
  custom anchor point \<open>(ax, ay)\<close> has delta \<open>(0.5 - ax, 0.5 - ay)\<close>; the centre is the
  position plus the delta multiplied componentwise by the bounding-box size; an object
  with no anchor is treated as anchored at its centre when it is a circle and at its top
  left corner otherwise; and for an object with no visible shape the bounding box is
  \<open>(0, 0)\<close> and the centre is the position.
\<close>

theorem toCenter_anchor_table:
  "anchorToCenter Center = (0, 0)
   \<and> anchorToCenter Topleft = (1 / 2, 1 / 2)
   \<and> anchorToCenter Botright = (- (1 / 2), - (1 / 2))
   \<and> anchorToCenter Top = (0, 1 / 2)
   \<and> anchorToCenter Topright = (- (1 / 2), 1 / 2)
   \<and> anchorToCenter Left = (1 / 2, 0)
   \<and> anchorToCenter Right = (- (1 / 2), 0)
   \<and> anchorToCenter Bot = (0, - (1 / 2))
   \<and> anchorToCenter Botleft = (1 / 2, - (1 / 2))
   \<and> translateAnchorToCenter (obj\<lparr>anchor := Some (Named n)\<rparr>) True
       = Vec2 (vec_x (pos obj) + bboxWidth obj * fst (anchorToCenter n))
              (vec_y (pos obj) + bboxHeight obj * snd (anchorToCenter n))
   \<and> translateAnchorToCenter (obj\<lparr>anchor := Some (Point (Vec2 ax ay))\<rparr>) True
       = Vec2 (vec_x (pos obj) + bboxWidth obj * (1 / 2 - ax))
              (vec_y (pos obj) + bboxHeight obj * (1 / 2 - ay))
   \<and> translateAnchorToCenter (obj\<lparr>anchor := None\<rparr>) True
       = translateAnchorToCenter
           (obj\<lparr>anchor := Some (if isCircle obj then Named Center else Named Topleft)\<rparr>) True
   \<and> renderAreaOf obj False = (0, 0)
   \<and> translateAnchorToCenter obj False = pos obj"
  by (simp add: translateAnchorToCenter_def renderAreaOf_def getDefaultAnchorFor_def
      split: prod.splits option.splits anchor.splits)

section \<open>Properties of the simulation stepper\<close>

lemma stepLoop_bounded:
  assumes "0 < st" and "ac < real k * st + st"
  shows "\<exists>w' ac' n'. stepLoop eng st w ac n = Some (w', ac', n')
           \<and> ac' < st \<and> n \<le> n'
           \<and> ac = ac' + real (n' - n) * st
           \<and> stepsTaken w' = stepsTaken w + (n' - n)
           \<and> (if 0 \<le> ac then 0 \<le> ac' else ac' = ac)"
  using assms
proof (induction k arbitrary: w ac n)
  case 0
  then have "\<not> st \<le> ac" by simp
  then show ?case by (subst stepLoop.simps) simp
next
  case (Suc k)
  show ?case
  proof (cases "st \<le> ac")
    case False
    then show ?thesis by (subst stepLoop.simps) simp
  next
    case True
    from Suc.prems have "ac - st < real k * st + st"
      by (simp add: algebra_simps)
    from Suc.IH [OF Suc.prems(1) this, of "step eng w" "n + 1"]
    obtain w' ac' n' where r:
      "stepLoop eng st (step eng w) (ac - st) (n + 1) = Some (w', ac', n')"
      "ac' < st" "n + 1 \<le> n'" "ac - st = ac' + real (n' - (n + 1)) * st"
      "stepsTaken w' = stepsTaken (step eng w) + (n' - (n + 1))"
      "if 0 \<le> ac - st then 0 \<le> ac' else ac' = ac - st"
      by blast
    have eq: "stepLoop eng st w ac n = Some (w', ac', n')"
      using True r(1) by (subst stepLoop.simps) simp
    have "real (n' - n) = real (n' - (n + 1)) + 1"
      using r(3) by (simp add: of_nat_diff)
    then have "ac = ac' + real (n' - n) * st"
      using r(4) by (simp add: algebra_simps)
    moreover have "stepsTaken w' = stepsTaken w + (n' - n)"
      using r(3,5) by (simp add: step_def)
    moreover have "0 \<le> ac'"
      using True Suc.prems(1) r(6) by (simp split: if_splits)
    moreover have "0 \<le> ac" using True Suc.prems(1) by linarith
    ultimately show ?thesis
      using eq r(2,3) by simp
  qed
qed

lemma stepLoop_total:
  assumes "0 < st"
  shows "\<exists>w' ac' n'. stepLoop eng st w ac n = Some (w', ac', n')
           \<and> ac' < st \<and> n \<le> n'
           \<and> ac = ac' + real (n' - n) * st
           \<and> stepsTaken w' = stepsTaken w + (n' - n)
           \<and> (if 0 \<le> ac then 0 \<le> ac' else ac' = ac)"
proof -
  obtain k :: nat where "ac / st < real k"
    using reals_Archimedean2 by blast
  then have "ac < real k * st"
    using assms by (simp add: pos_divide_less_eq)
  then have "ac < real k * st + st" using assms by linarith
  from stepLoop_bounded [OF assms this] show ?thesis .
qed


text \<open>With a step interval that is not positive the loop never ends (the result
  \<open>None\<close>), and while the world is not loaded the frames change nothing.\<close>

lemma PHYSICS_STEP_default: "PHYSICS_STEP None = 5"
  by (simp add: PHYSICS_STEP_def orElse_def optField_def)

lemma runFrames_unloaded: "runFrames eng st frames None s = Some (None, s)"
  by (induction frames) (auto simp: onUpdate_def)

lemma stepLoop_never_ends:
  assumes "st \<le> 0" and "0 \<le> ac"
  shows "stepLoop eng st w ac n = None"
proof (rule ccontr)
  assume "stepLoop eng st w ac n \<noteq> None"
  then obtain r where r: "stepLoop eng st w ac n = Some r" by auto
  have "\<not> (st \<le> 0 \<and> 0 \<le> ac)"
  proof (rule stepLoop.raw_induct
      [where P = "\<lambda>eng st w ac n r. \<not> (st \<le> 0 \<and> 0 \<le> ac)", OF _ r])
    fix f :: "engine \<Rightarrow> real \<Rightarrow> world \<Rightarrow> real \<Rightarrow> nat \<Rightarrow> (world \<times> real \<times> nat) option"
      and e :: engine and si :: real and w' :: world and ac' :: real and n' :: nat
      and y :: "world \<times> real \<times> nat"
    assume ih: "\<And>e si w' ac' n' y. f e si w' ac' n' = Some y \<Longrightarrow> \<not> (si \<le> 0 \<and> 0 \<le> ac')"
      and eq: "(if si \<le> ac' then f e si (step e w') (ac' - si) (n' + 1) else Some (w', ac', n'))
                = Some y"
    show "\<not> (si \<le> 0 \<and> 0 \<le> ac')"
    proof
      assume c: "si \<le> 0 \<and> 0 \<le> ac'"
      then have "si \<le> ac'" by simp
      with eq have "f e si (step e w') (ac' - si) (n' + 1) = Some y" by simp
      from ih [OF this] c show False by simp
    qed
  qed
  with assms show False by simp
qed

lemma onUpdate_frame:
  assumes "0 < st" and "0 \<le> dt" and "0 \<le> accumulator s" and "accumulator s < st"
  shows "\<exists>w' s'. onUpdate eng st dt g (Some w) s = Some (Some w', s')
           \<and> updateCount s \<le> updateCount s'
           \<and> stepsTaken w' = stepsTaken w + (updateCount s' - updateCount s)
           \<and> accumulator s + dt * 1000
               = accumulator s' + real (updateCount s' - updateCount s) * st
           \<and> 0 \<le> accumulator s' \<and> accumulator s' < st"
proof -
  let ?w = "w\<lparr>gravity := Vec2 (vec_x (gravity w)) g\<rparr>"
  let ?ac = "accumulator s + dt * 1000"
  from stepLoop_total [OF assms(1), of eng ?w ?ac "updateCount s"]
  obtain w' ac' n' where r:
    "stepLoop eng st ?w ?ac (updateCount s) = Some (w', ac', n')"
    "ac' < st" "updateCount s \<le> n'"
    "?ac = ac' + real (n' - updateCount s) * st"
    "stepsTaken w' = stepsTaken ?w + (n' - updateCount s)"
    "if 0 \<le> ?ac then 0 \<le> ac' else ac' = ?ac"
    by blast
  have "0 \<le> ?ac" using assms(2,3) by simp
  with r(6) have "0 \<le> ac'" by simp
  have "onUpdate eng st dt g (Some w) s
          = Some (Some w', \<lparr> accumulator = ac', updateCount = n' \<rparr>)"
    by (simp add: onUpdate_def r(1))
  moreover have "stepsTaken w' = stepsTaken w + (n' - updateCount s)"
    using r(5) by simp
  ultimately show ?thesis
    using r(2,3,4) \<open>0 \<le> ac'\<close>
    by (intro exI [of _ w'] exI [of _ "\<lparr> accumulator = ac', updateCount = n' \<rparr>"]) simp
qed

lemma runFrames_invariant:
  assumes "0 < st" and "\<forall>f \<in> set frames. 0 \<le> fst f"
    and "0 \<le> accumulator s" and "accumulator s < st"
  shows "\<exists>w' s'. runFrames eng st frames (Some w) s = Some (Some w', s')
           \<and> updateCount s \<le> updateCount s'
           \<and> stepsTaken w' = stepsTaken w + (updateCount s' - updateCount s)
           \<and> accumulator s + (\<Sum>f\<leftarrow>frames. fst f * 1000)
               = accumulator s' + real (updateCount s' - updateCount s) * st
           \<and> 0 \<le> accumulator s' \<and> accumulator s' < st"
  using assms
proof (induction frames arbitrary: w s)
  case Nil
  then show ?case by simp
next
  case (Cons f fs)
  obtain dt g where f: "f = (dt, g)" by (cases f)
  with Cons.prems have dt: "0 \<le> dt" by simp
  from onUpdate_frame [OF Cons.prems(1) dt Cons.prems(3,4), of eng g w]
  obtain w1 s1 where r1:
    "onUpdate eng st dt g (Some w) s = Some (Some w1, s1)"
    "updateCount s \<le> updateCount s1"
    "stepsTaken w1 = stepsTaken w + (updateCount s1 - updateCount s)"
    "accumulator s + dt * 1000 = accumulator s1 + real (updateCount s1 - updateCount s) * st"
    "0 \<le> accumulator s1" "accumulator s1 < st"
    by blast
  from Cons.prems have "\<forall>f \<in> set fs. 0 \<le> fst f" by simp
  from Cons.IH [OF Cons.prems(1) this r1(5,6), of w1]
  obtain w2 s2 where r2:
    "runFrames eng st fs (Some w1) s1 = Some (Some w2, s2)"
    "updateCount s1 \<le> updateCount s2"
    "stepsTaken w2 = stepsTaken w1 + (updateCount s2 - updateCount s1)"
    "accumulator s1 + (\<Sum>f\<leftarrow>fs. fst f * 1000)
       = accumulator s2 + real (updateCount s2 - updateCount s1) * st"
    "0 \<le> accumulator s2" "accumulator s2 < st"
    by blast
  have run: "runFrames eng st (f # fs) (Some w) s = Some (Some w2, s2)"
    using f r1(1) r2(1) by simp
  have cnt: "real (updateCount s2 - updateCount s)
               = real (updateCount s2 - updateCount s1) + real (updateCount s1 - updateCount s)"
    using r1(2) r2(2) by (simp add: of_nat_diff)
  have "accumulator s + (\<Sum>f\<leftarrow>f # fs. fst f * 1000)
          = accumulator s2 + real (updateCount s2 - updateCount s) * st"
    using f r1(4) r2(4) cnt by (simp add: algebra_simps)
  moreover have "stepsTaken w2 = stepsTaken w + (updateCount s2 - updateCount s)"
    using r1(2,3) r2(2,3) by simp
  moreover have "updateCount s \<le> updateCount s2"
    using r1(2) r2(2) by simp
  ultimately show ?case
    using run r2(5,6) by (intro exI [of _ w2] exI [of _ s2]) simp
qed

text \<open>
  Claim C3 (accumulator conservation).  For a positive step interval, a loaded world and
  any run of frames with non-negative deltas, started from the fresh stepper: every
  frame's loop ends; afterwards the number of world steps taken equals \<open>updateCount\<close>,
  so the simulated time is \<open>updateCount * stepInterval\<close>; that time is at most the
  elapsed time (the sum of the deltas, in milliseconds) and less than one step interval
  behind it; and the accumulator is the difference, at least 0 and less than the step
  interval.
\<close>

theorem accumulator_conservation:
  assumes "0 < stepInterval" and "\<forall>f \<in> set frames. 0 \<le> fst f"
  shows "\<exists>w' s'. runFrames eng stepInterval frames (Some w) newStepper = Some (Some w', s')
           \<and> stepsTaken w' = stepsTaken w + updateCount s'
           \<and> real (updateCount s') * stepInterval \<le> (\<Sum>f\<leftarrow>frames. fst f * 1000)
           \<and> (\<Sum>f\<leftarrow>frames. fst f * 1000) < real (updateCount s') * stepInterval + stepInterval
           \<and> accumulator s' = (\<Sum>f\<leftarrow>frames. fst f * 1000) - real (updateCount s') * stepInterval
           \<and> 0 \<le> accumulator s' \<and> accumulator s' < stepInterval"
proof -
  have a0: "0 \<le> accumulator newStepper" "accumulator newStepper < stepInterval"
    using assms(1) by (simp_all add: newStepper_def)
  from runFrames_invariant [OF assms a0, of eng w]
  obtain w' s' where r:
    "runFrames eng stepInterval frames (Some w) newStepper = Some (Some w', s')"
    "stepsTaken w' = stepsTaken w + (updateCount s' - updateCount newStepper)"
    "accumulator newStepper + (\<Sum>f\<leftarrow>frames. fst f * 1000)
       = accumulator s' + real (updateCount s' - updateCount newStepper) * stepInterval"
    "0 \<le> accumulator s'" "accumulator s' < stepInterval"
    by blast
  from r(2) have st: "stepsTaken w' = stepsTaken w + updateCount s'"
    by (simp add: newStepper_def)
  from r(3) have tot: "(\<Sum>f\<leftarrow>frames. fst f * 1000)
      = accumulator s' + real (updateCount s') * stepInterval"
    by (simp add: newStepper_def)
  show ?thesis
    using r(1,4,5) st tot by (intro exI [of _ w'] exI [of _ s']) simp
qed

theorem accumulator_conservation_witness:
  "\<exists>w' s'. runFrames plainEngine (PHYSICS_STEP None) [(0.012, 200), (0.004, 200)]
             (Some load) newStepper
             = Some (Some w', s')
     \<and> stepsTaken w' = updateCount s'
     \<and> real (updateCount s') * 5 \<le> 16
     \<and> 16 < real (updateCount s') * 5 + 5
     \<and> accumulator s' = 16 - real (updateCount s') * 5
     \<and> 0 \<le> accumulator s' \<and> accumulator s' < 5"
  using accumulator_conservation
    [of "PHYSICS_STEP None" "[(0.012, 200), (0.004, 200)]" plainEngine load]
  by (simp add: load_def PHYSICS_STEP_default)

section \<open>Properties of the body adapter\<close>

lemma ensureBody_existing:
  assumes "rbody a = Some h"
  shows "ensureBody eng opts w a = (None, w, a)"
  using assms by (simp add: ensureBody_def)

lemma collider_rect:
  assumes "rbody a = None" and "isRect (self a)" and "\<not> isPolygon (self a)"
  shows "\<exists>w' a'. ensureBody eng opts w a = (None, w', a')
           \<and> rbody a' = Some (nextBody w) \<and> collider a' = Some (nextCollider w)
           \<and> colliders w' (nextCollider w)
               = Some \<lparr> shape = Cuboid (width (self a) / 2) (height (self a) / 2),
                        parent = nextBody w,
                        colliderMass = orElse (optField opts optMass) 1,
                        restitution = 0 \<rparr>"
  using assms
  by (simp add: ensureBody_def createRigidBody_def createCollider_def updBody_def
      updCollider_def Let_def)

lemma collider_circle:
  assumes "rbody a = None" and "isCircle (self a)" and "\<not> isRect (self a)"
    and "\<not> isPolygon (self a)"
  shows "\<exists>w' a'. ensureBody eng opts w a = (None, w', a')
           \<and> rbody a' = Some (nextBody w) \<and> collider a' = Some (nextCollider w)
           \<and> colliders w' (nextCollider w)
               = Some \<lparr> shape = Ball (radius (self a)),
                        parent = nextBody w,
                        colliderMass = orElse (optField opts optMass) 1,
                        restitution = 0 \<rparr>"
  using assms
  by (simp add: ensureBody_def createRigidBody_def createCollider_def updBody_def
      updCollider_def Let_def)

lemma collider_polygon_none:
  assumes "rbody a = None" and "isPolygon (self a)"
    and "convexHull eng (convertPolygonPts (pts (self a))) = None"
  shows "\<exists>w' a'. ensureBody eng opts w a = (Some (Error ''polygon is not convex''), w', a')
           \<and> rbody a' = Some (nextBody w) \<and> collider a' = collider a
           \<and> colliders w' = colliders w \<and> nextCollider w' = nextCollider w"
  using assms
  by (simp add: ensureBody_def createRigidBody_def createCollider_def updBody_def
      updCollider_def Let_def)

lemma collider_polygon_hull:
  assumes "rbody a = None" and "isPolygon (self a)"
    and "convexHull eng (convertPolygonPts (pts (self a))) = Some d"
  shows "\<exists>w' a'. ensureBody eng opts w a = (None, w', a')
           \<and> rbody a' = Some (nextBody w) \<and> collider a' = Some (nextCollider w)
           \<and> colliders w' (nextCollider w)
               = Some \<lparr> shape = d,
                        parent = nextBody w,
                        colliderMass = orElse (optField opts optMass) 1,
                        restitution = 0 \<rparr>"
  using assms
  by (simp add: ensureBody_def createRigidBody_def createCollider_def updBody_def
      updCollider_def Let_def)

lemma collider_shapeless:
  assumes "rbody a = None" and "\<not> isPolygon (self a)" and "\<not> isRect (self a)"
    and "\<not> isCircle (self a)"
  shows "\<exists>w' a' b. ensureBody eng opts w a = (None, w', a')
           \<and> rbody a' = Some (nextBody w) \<and> collider a' = collider a
           \<and> colliders w' = colliders w \<and> nextCollider w' = nextCollider w
           \<and> bodies w' (nextBody w) = Some b \<and> attached b = []"
  using assms
  by (simp add: ensureBody_def createRigidBody_def createCollider_def updBody_def
      updCollider_def Let_def)


text \<open>
  The collider mapping as the code has it.  When the body is created (no body yet): a rectangle
  gets a box collider with half-extents \<open>(width / 2, height / 2)\<close>; a circle gets a ball
  of its radius; a polygon for which the engine has no convex hull makes the creation
  fail with the error \<open>polygon is not convex\<close> and no collider is created; a polygon with
  a hull gets that hull; an object with no shape gets a body with no collider; and the
  mass of a created collider is the configured mass, or 1.
\<close>

theorem collider_shape_mapping:
  assumes "rbody a = None"
  shows
    "(isRect (self a) \<and> \<not> isPolygon (self a) \<longrightarrow>
        (\<exists>w' a'. ensureBody eng opts w a = (None, w', a')
           \<and> rbody a' = Some (nextBody w) \<and> collider a' = Some (nextCollider w)
           \<and> colliders w' (nextCollider w)
               = Some \<lparr> shape = Cuboid (width (self a) / 2) (height (self a) / 2),
                        parent = nextBody w,
                        colliderMass = orElse (optField opts optMass) 1,
                        restitution = 0 \<rparr>))
     \<and> (isCircle (self a) \<and> \<not> isRect (self a) \<and> \<not> isPolygon (self a) \<longrightarrow>
        (\<exists>w' a'. ensureBody eng opts w a = (None, w', a')
           \<and> rbody a' = Some (nextBody w) \<and> collider a' = Some (nextCollider w)
           \<and> colliders w' (nextCollider w)
               = Some \<lparr> shape = Ball (radius (self a)),
                        parent = nextBody w,
                        colliderMass = orElse (optField opts optMass) 1,
                        restitution = 0 \<rparr>))
     \<and> (isPolygon (self a) \<and> convexHull eng (convertPolygonPts (pts (self a))) = None \<longrightarrow>
        (\<exists>w' a'. ensureBody eng opts w a = (Some (Error ''polygon is not convex''), w', a')
           \<and> collider a' = collider a
           \<and> colliders w' = colliders w \<and> nextCollider w' = nextCollider w))
     \<and> (\<forall>d. isPolygon (self a) \<and> convexHull eng (convertPolygonPts (pts (self a))) = Some d \<longrightarrow>
        (\<exists>w' a'. ensureBody eng opts w a = (None, w', a')
           \<and> rbody a' = Some (nextBody w) \<and> collider a' = Some (nextCollider w)
           \<and> colliders w' (nextCollider w)
               = Some \<lparr> shape = d,
                        parent = nextBody w,
                        colliderMass = orElse (optField opts optMass) 1,
                        restitution = 0 \<rparr>))
     \<and> (\<not> isPolygon (self a) \<and> \<not> isRect (self a) \<and> \<not> isCircle (self a) \<longrightarrow>
        (\<exists>w' a' b. ensureBody eng opts w a = (None, w', a')
           \<and> rbody a' = Some (nextBody w) \<and> collider a' = collider a
           \<and> colliders w' = colliders w \<and> nextCollider w' = nextCollider w
           \<and> bodies w' (nextBody w) = Some b \<and> attached b = []))"
  using collider_rect [OF assms, of eng opts w]
    collider_circle [OF assms, of eng opts w]
    collider_polygon_none [OF assms, of eng opts w]
    collider_polygon_hull [OF assms, of eng _ opts w]
    collider_shapeless [OF assms, of eng opts w]
  by blast

theorem collider_shape_mapping_witness:
  "(\<exists>w' a'. ensureBody plainEngine None load (rapierBody None rectObj) = (None, w', a')
      \<and> rbody a' = Some 0 \<and> collider a' = Some 0
      \<and> colliders w' 0
          = Some \<lparr> shape = Cuboid 5 10, parent = 0, colliderMass = 1, restitution = 0 \<rparr>)
   \<and> (\<exists>w' a'. ensureBody plainEngine
                 (Some \<lparr> optIsStatic = None, optKinematic = None, optMass = Some 3,
                         optJumpPower = None, optBounciness = None, optGravityScale = None \<rparr>)
                 load (rapierBody None circleObj) = (None, w', a')
      \<and> rbody a' = Some 0 \<and> collider a' = Some 0
      \<and> colliders w' 0
          = Some \<lparr> shape = Ball 5, parent = 0, colliderMass = 3, restitution = 0 \<rparr>)
   \<and> (\<exists>w' a'. ensureBody plainEngine None load (rapierBody None segmentObj)
                 = (Some (Error ''polygon is not convex''), w', a')
      \<and> collider a' = None \<and> colliders w' = Map.empty \<and> nextCollider w' = 0)
   \<and> (\<exists>w' a' b. ensureBody plainEngine None load (rapierBody None shapelessObj) = (None, w', a')
      \<and> rbody a' = Some 0 \<and> collider a' = None
      \<and> colliders w' = Map.empty \<and> nextCollider w' = 0
      \<and> bodies w' 0 = Some b \<and> attached b = [])"
proof -
  have r: "rbody (rapierBody None ob) = None" for ob
    by (simp add: rapierBody_def)
  show ?thesis
    using collider_shape_mapping [OF r, of rectObj plainEngine None load]
      collider_shape_mapping [OF r, of circleObj plainEngine
        "Some \<lparr> optIsStatic = None, optKinematic = None, optMass = Some 3,
                optJumpPower = None, optBounciness = None, optGravityScale = None \<rparr>" load]
      collider_shape_mapping [OF r, of segmentObj plainEngine None load]
      collider_shape_mapping [OF r, of shapelessObj plainEngine None load]
    by (simp add: rapierBody_def rectObj_def circleObj_def segmentObj_def shapelessObj_def
        polygonAtOrigin_def plainEngine_def load_def orElse_def optField_def
        convertPolygonPts_def)
qed

text \<open>The vertex list goes to the engine as the coordinates of its points, in order.\<close>

lemma convertPolygonPts_Nil: "convertPolygonPts [] = []"
  by (simp add: convertPolygonPts_def)

lemma convertPolygonPts_Cons:
  "convertPolygonPts (Vec2 a b # ps) = a # b # convertPolygonPts ps"
  by (simp add: convertPolygonPts_def)

lemma convertPolygonPts_length: "length (convertPolygonPts ps) = 2 * length ps"
  by (induction ps) (simp_all add: convertPolygonPts_def)

text \<open>
  Claim C5 (collider shape mapping).  The claim is that a polygon that is not convex makes
  the creation fail.  The code fails only when the engine has no convex hull of the
  points, and an engine has one for a polygon that is not convex: for the polygon with
  the vertices \<open>(0, 0)\<close>, \<open>(10, 0)\<close>, \<open>(2, 2)\<close>, \<open>(0, 10)\<close>, whose vertex \<open>(2, 2)\<close> lies
  inside the triangle of the others, no exception is raised, and the body gets a collider
  that is the convex hull of the four points, with mass 1.
\<close>

theorem concave_polygon_accepted:
  "convertPolygonPts (pts dartObj) = [0, 0, 10, 0, 2, 2, 0, 10]
   \<and> fst (ensureBody plainEngine None load (rapierBody None dartObj)) = None
   \<and> collider (snd (snd (ensureBody plainEngine None load (rapierBody None dartObj)))) = Some 0
   \<and> colliders (fst (snd (ensureBody plainEngine None load (rapierBody None dartObj)))) 0
       = Some \<lparr> shape = ConvexHull [0, 0, 10, 0, 2, 2, 0, 10], parent = 0,
                colliderMass = 1, restitution = 0 \<rparr>"
  by (simp add: ensureBody_def rapierBody_def dartObj_def polygonAtOrigin_def load_def
      createRigidBody_def createCollider_def updBody_def updCollider_def Let_def
      plainEngine_def convertPolygonPts_def orElse_def optField_def)

lemma withBody_live:
  assumes "ensureBody eng opts w a = (None, w1, a1)" and "rbody a1 = Some h"
    and "bodies w1 h = Some b"
  shows "withBody eng opts w a k = k h b w1 a1"
  using assms by (simp add: withBody_def)

lemma updBody_bodies:
  "bodies (updBody h f w) = (bodies w)(h := map_option f (bodies w h))"
  by (simp add: updBody_def)

text \<open>
  Claim C10 (translateX, translateY).  Once the body is there (created by this call or
  before), \<open>translateX x\<close> gives the body the translation \<open>(x, y)\<close> where \<open>y\<close> is the
  body's own translation \<open>y\<close> at the call, and \<open>translateY y\<close> the translation
  \<open>(x, y)\<close> where \<open>x\<close> is the body's own; nothing else of the body changes, and no other
  body changes.
\<close>

theorem translate_single_axis:
  assumes "ensureBody eng opts w a = (None, w1, a1)" and "rbody a1 = Some h"
    and "bodies w1 h = Some b"
  shows
    "(\<exists>w'. translateX eng opts xv w a = (Inr (), w', a1)
        \<and> bodies w' h = Some (b\<lparr>translation := Vec2 xv (vec_y (translation b))\<rparr>)
        \<and> (\<forall>h'. h' \<noteq> h \<longrightarrow> bodies w' h' = bodies w1 h'))
     \<and> (\<exists>w'. translateY eng opts yv w a = (Inr (), w', a1)
        \<and> bodies w' h = Some (b\<lparr>translation := Vec2 (vec_x (translation b)) yv\<rparr>)
        \<and> (\<forall>h'. h' \<noteq> h \<longrightarrow> bodies w' h' = bodies w1 h'))"
  using assms(3)
  by (simp add: translateX_def translateY_def withBody_live [OF assms] updBody_bodies)

theorem translate_single_axis_witness:
  "(\<exists>w'. translateX plainEngine None 42 load (rapierBody None circleObj)
            = (Inr (), w', snd (snd (ensureBody plainEngine None load (rapierBody None circleObj))))
      \<and> map_option translation (bodies w' 0) = Some (Vec2 42 4))
   \<and> (\<exists>w'. translateY plainEngine None 42 load (rapierBody None circleObj)
            = (Inr (), w', snd (snd (ensureBody plainEngine None load (rapierBody None circleObj))))
      \<and> map_option translation (bodies w' 0) = Some (Vec2 3 42))"
proof -
  obtain w1 a1 where e:
    "ensureBody plainEngine None load (rapierBody None circleObj) = (None, w1, a1)"
    and h: "rbody a1 = Some 0"
    and b: "map_option translation (bodies w1 0) = Some (Vec2 3 4)"
    by (simp add: ensureBody_def rapierBody_def circleObj_def load_def createRigidBody_def
        createCollider_def updBody_def updCollider_def translateAnchorToCenter_def
        renderAreaOf_def getDefaultAnchorFor_def orElse_def optField_def Let_def)
  from b obtain b0 where b0: "bodies w1 0 = Some b0" "translation b0 = Vec2 3 4"
    by auto
  show ?thesis
    using translate_single_axis [OF e h b0(1), of 42 42] b0(2) e
    by auto
qed

text \<open>
  Claim C7 (velocity live view).  Once the body is there, the \<open>velocity\<close> getter answers
  with a view of that body holding the body's linear velocity; writing the view's \<open>y\<close>, at
  any later state of the world in which the body exists, sets the body's linear velocity
  to its own \<open>x\<close> of that moment and the written \<open>y\<close>, and changes no other body; and
  assigning \<open>velocity\<close> sets the body's whole linear velocity.
\<close>

theorem velocity_live_view:
  assumes "ensureBody eng opts w a = (None, w1, a1)" and "rbody a1 = Some h"
    and "bodies w1 h = Some b"
  shows
    "(\<exists>v. getVelocity eng opts w a = (Inr v, w1, a1)
        \<and> viewBody v = h \<and> target v = linvel b
        \<and> (\<forall>w2 b2. bodies w2 h = Some b2 \<longrightarrow>
              (\<exists>w3 v3. viewSet KeyY newY w2 v = (Inr (), w3, v3)
                 \<and> bodies w3 h = Some (b2\<lparr>linvel := Vec2 (vec_x (linvel b2)) newY\<rparr>)
                 \<and> (\<forall>h'. h' \<noteq> h \<longrightarrow> bodies w3 h' = bodies w2 h')
                 \<and> target v3 = Vec2 (vec_x (linvel b)) newY)))
     \<and> (\<exists>w'. setVelocity eng opts vel w a = (Inr (), w', a1)
        \<and> bodies w' h = Some (b\<lparr>linvel := vel\<rparr>)
        \<and> (\<forall>h'. h' \<noteq> h \<longrightarrow> bodies w' h' = bodies w1 h'))"
  using assms(3)
  by (simp add: getVelocity_def setVelocity_def viewSet_def withBody_live [OF assms]
      updBody_bodies)


theorem velocity_live_view_witness:
  "\<exists>w1 a1 v w3 v3.
      setVelocity plainEngine None (Vec2 3 4) load (rapierBody None circleObj) = (Inr (), w1, a1)
      \<and> getVelocity plainEngine None w1 a1 = (Inr v, w1, a1)
      \<and> target v = Vec2 3 4
      \<and> viewSet KeyY (- 200) w1 v = (Inr (), w3, v3)
      \<and> map_option linvel (bodies w3 0) = Some (Vec2 3 (- 200))"
proof -
  obtain w0 a0 b0 where e0:
    "ensureBody plainEngine None load (rapierBody None circleObj) = (None, w0, a0)"
    and h0: "rbody a0 = Some 0" and b0: "bodies w0 0 = Some b0"
    by (simp add: ensureBody_def rapierBody_def circleObj_def load_def createRigidBody_def
        createCollider_def updBody_def updCollider_def Let_def)
  note first = velocity_live_view [OF e0 h0 b0, of 0 "Vec2 3 4", THEN conjunct2]
  then obtain w1 where s1:
    "setVelocity plainEngine None (Vec2 3 4) load (rapierBody None circleObj) = (Inr (), w1, a0)"
    and b1: "bodies w1 0 = Some (b0\<lparr>linvel := Vec2 3 4\<rparr>)"
    by (elim exE conjE)
  have e1: "ensureBody plainEngine None w1 a0 = (None, w1, a0)"
    using h0 by (simp add: ensureBody_def)
  note second = velocity_live_view [OF e1 h0 b1, of "- 200" "Vec2 0 0", THEN conjunct1]
  then obtain v where g: "getVelocity plainEngine None w1 a0 = (Inr v, w1, a0)"
    and t: "target v = linvel (b0\<lparr>linvel := Vec2 3 4\<rparr>)"
    and live: "\<forall>w2 b2. bodies w2 0 = Some b2 \<longrightarrow>
              (\<exists>w3 v3. viewSet KeyY (- 200) w2 v = (Inr (), w3, v3)
                 \<and> bodies w3 0 = Some (b2\<lparr>linvel := Vec2 (vec_x (linvel b2)) (- 200)\<rparr>)
                 \<and> (\<forall>h'. h' \<noteq> 0 \<longrightarrow> bodies w3 h' = bodies w2 h')
                 \<and> target v3 = Vec2 (vec_x (linvel (b0\<lparr>linvel := Vec2 3 4\<rparr>))) (- 200))"
    by (elim exE conjE)
  from live [rule_format, OF b1] obtain w3 v3 where
    vs: "viewSet KeyY (- 200) w1 v = (Inr (), w3, v3)"
    and b3: "bodies w3 0
       = Some (b0\<lparr>linvel := Vec2 3 4,
                  linvel := Vec2 (vec_x (linvel (b0\<lparr>linvel := Vec2 3 4\<rparr>))) (- 200)\<rparr>)"
    by (elim exE conjE)
  have "target v = Vec2 3 4" using t by simp
  moreover have "map_option linvel (bodies w3 0) = Some (Vec2 3 (- 200))"
    using b3 by simp
  ultimately show ?thesis
    using s1 g vs by (intro exI [of _ w1] exI [of _ a0] exI [of _ v] exI [of _ w3] exI [of _ v3]) simp
qed

lemma destroy_fresh:
  "destroy w (rapierBody opts ob) = (w, rapierBody opts ob)"
  by (simp add: destroy_def rapierBody_def)

lemma removeCollider_colliders:
  "colliders (removeCollider c w) = (colliders w)(c := None)"
  by (auto simp: removeCollider_def updBody_def split: option.splits)

lemma removeCollider_bodies_dom:
  "(bodies (removeCollider c w) h = None) = (bodies w h = None)"
  by (simp add: removeCollider_def updBody_def split: option.splits)

text \<open>
  Claim C8 (lazy creation, destruction).  Constructing the component creates no body and
  no collider, and destroying it right away returns the world as it was; \<open>destroy\<close> on
  an adapter with no body and no collider leaves the world as it is; on an adapter with a
  body and a collider it removes the collider and then the body, after which neither is
  in the world and the other bodies and colliders exist as before; on an adapter with a
  body and no collider it removes the body only.
\<close>

theorem lazy_creation_and_destruction:
  "rbody (rapierBody opts ob) = None \<and> collider (rapierBody opts ob) = None
   \<and> destroy w (rapierBody opts ob) = (w, rapierBody opts ob)
   \<and> (rbody a = None \<and> collider a = None \<longrightarrow> destroy w a = (w, a))
   \<and> (\<forall>h c. rbody a = Some h \<and> collider a = Some c \<longrightarrow>
         fst (destroy w a) = removeRigidBody h (removeCollider c w)
         \<and> bodies (fst (destroy w a)) h = None
         \<and> colliders (fst (destroy w a)) = (colliders w)(c := None)
         \<and> (\<forall>h'. h' \<noteq> h \<longrightarrow> (bodies (fst (destroy w a)) h' = None) = (bodies w h' = None)))
   \<and> (\<forall>h. rbody a = Some h \<and> collider a = None \<longrightarrow>
         fst (destroy w a) = removeRigidBody h w
         \<and> bodies (fst (destroy w a)) = (bodies w)(h := None)
         \<and> colliders (fst (destroy w a)) = colliders w)"
  by (simp add: destroy_fresh removeCollider_colliders removeCollider_bodies_dom)
     (simp add: destroy_def rapierBody_def removeRigidBody_def removeCollider_colliders
        removeCollider_bodies_dom Let_def)

theorem lazy_creation_and_destruction_witness:
  "\<exists>w1 a1. ensureBody plainEngine None load (rapierBody None rectObj) = (None, w1, a1)
      \<and> bodies w1 0 \<noteq> None \<and> colliders w1 0 \<noteq> None
      \<and> bodies (fst (destroy w1 a1)) 0 = None
      \<and> colliders (fst (destroy w1 a1)) 0 = None
      \<and> destroy load (rapierBody None rectObj) = (load, rapierBody None rectObj)"
proof -
  obtain w1 a1 where e:
    "ensureBody plainEngine None load (rapierBody None rectObj) = (None, w1, a1)"
    and h: "rbody a1 = Some 0" and c: "collider a1 = Some 0"
    and b1: "bodies w1 0 \<noteq> None" and c1: "colliders w1 0 \<noteq> None"
    by (simp add: ensureBody_def rapierBody_def rectObj_def load_def createRigidBody_def
        createCollider_def updBody_def updCollider_def Let_def)
  note t = lazy_creation_and_destruction [of None rectObj w1 a1]
  from lazy_creation_and_destruction [of None rectObj load a1]
  have fresh: "destroy load (rapierBody None rectObj) = (load, rapierBody None rectObj)"
    by (elim conjE)
  from t have "\<forall>h c. rbody a1 = Some h \<and> collider a1 = Some c \<longrightarrow>
         fst (destroy w1 a1) = removeRigidBody h (removeCollider c w1)
         \<and> bodies (fst (destroy w1 a1)) h = None
         \<and> colliders (fst (destroy w1 a1)) = (colliders w1)(c := None)
         \<and> (\<forall>h'. h' \<noteq> h \<longrightarrow>
               (bodies (fst (destroy w1 a1)) h' = None) = (bodies w1 h' = None))"
    by (elim conjE)
  note k = this [rule_format, of 0 0, OF conjI [OF h c]]
  have "bodies (fst (destroy w1 a1)) 0 = None"
    using k by (elim conjE)
  moreover have "colliders (fst (destroy w1 a1)) = (colliders w1)(0 := None)"
    using k by (elim conjE)
  ultimately
  show ?thesis
    using e b1 c1 fresh by (intro exI [of _ w1] exI [of _ a1]) simp
qed

text \<open>
  The ray of \<open>isGrounded\<close>.  On an object with a render area, once the body is there,
  the answer is whether the engine's ray cast, excluding the body itself, reports a hit
  for the ray that starts at the body's translation with the direction vector
  \<open>(bboxWidth / 2, bboxHeight + 1)\<close> and \<^verbatim>\<open>maxToi = 1\<close>: the segment from the translation
  to the point \<open>bboxWidth / 2\<close> to its right and \<open>bboxHeight + 1\<close> below it.  On an object
  with no render area the call ends with a \<open>TypeError\<close>.
\<close>

lemma isGrounded_ray:
  assumes "ensureBody eng opts w a = (None, w1, a1)" and "rbody a1 = Some h"
    and "bodies w1 h = Some b" and "hasRenderArea (self a1)"
  shows
    "isGrounded eng opts w a
       = (Inr (castRay eng w1
                 (Ray (translation b)
                      (Vec2 (bboxWidth (self a1) / 2) (bboxHeight (self a1) + 1)))
                 1 True (Some h) \<noteq> None),
          w1, a1)
     \<and> pointAt (Ray (translation b)
                     (Vec2 (bboxWidth (self a1) / 2) (bboxHeight (self a1) + 1))) 1
         = Vec2 (vec_x (translation b) + bboxWidth (self a1) / 2)
                (vec_y (translation b) + bboxHeight (self a1) + 1)"
  using assms by (simp add: isGrounded_def pointAt_def Let_def)

lemma isGrounded_no_renderArea:
  assumes "ensureBody eng opts w a = (None, w1, a1)" and "\<not> hasRenderArea (self a1)"
  shows "isGrounded eng opts w a = (Inl TypeError, w1, a1)"
  using assms by (simp add: isGrounded_def)

lemma isGrounded_shapelessObj:
  "fst (isGrounded plainEngine None load (rapierBody None shapelessObj)) = Inl TypeError"
  by (simp add: isGrounded_def ensureBody_def rapierBody_def shapelessObj_def load_def
      createRigidBody_def updBody_def Let_def hasRenderArea_def)

lemma ensureBody_rectObj:
  "\<exists>w1 a1 b. ensureBody eng None load (rapierBody None rectObj) = (None, w1, a1)
     \<and> rbody a1 = Some 0 \<and> bodies w1 0 = Some b \<and> translation b = Vec2 0 0
     \<and> self a1 = rectObj\<lparr>isRotate := True\<rparr>"
  by (simp add: ensureBody_def rapierBody_def rectObj_def load_def createRigidBody_def
        createCollider_def updBody_def updCollider_def Let_def translateAnchorToCenter_def
        renderAreaOf_def)

text \<open>The rectangle 10 by 20 with its centre at the origin has its bottom edge at
  \<open>y = 10\<close>; over ground that starts at \<open>y = g\<close> it is reported as grounded exactly when
  \<open>g \<le> 21\<close>.\<close>

lemma isGrounded_rectObj:
  "fst (isGrounded (groundEngine g) None load (rapierBody None rectObj)) = Inr (g \<le> 21)"
proof -
  from ensureBody_rectObj [of "groundEngine g"]
  obtain w1 a1 b where e:
    "ensureBody (groundEngine g) None load (rapierBody None rectObj) = (None, w1, a1)"
    and h: "rbody a1 = Some 0" and b: "bodies w1 0 = Some b"
    and t: "translation b = Vec2 0 0" and s: "self a1 = rectObj\<lparr>isRotate := True\<rparr>"
    by (elim exE conjE)
  have r: "hasRenderArea (self a1)"
    by (simp add: s hasRenderArea_def rectObj_def)
  from isGrounded_ray [OF e h b r] t s show ?thesis
    by (simp add: groundEngine_def rectObj_def pointAt_def)
qed

text \<open>
  Claim C2 (isGrounded).  The claim is that the ray goes straight down from the body's
  translation and ends one unit past the object's bottom edge, \<open>bboxHeight / 2 + 1\<close>
  below the translation.  The code's ray ends \<open>bboxHeight + 1\<close> below the translation:
  the rectangle 10 by 20 with its centre at the origin (bottom edge at \<open>y = 10\<close>), hovering
  5 above ground that starts at \<open>y = 15\<close>, is reported as grounded, while the ray of the
  claim, of length 11, hits nothing there.
\<close>

theorem isGrounded_hovering:
  "fst (isGrounded (groundEngine 15) None load (rapierBody None rectObj)) = Inr True
   \<and> map_option translation
        (bodies (fst (snd (isGrounded (groundEngine 15) None load (rapierBody None rectObj)))) 0)
       = Some (Vec2 0 0)
   \<and> castRay (groundEngine 15) load (specGroundRay (Vec2 0 0) rectObj) 1 True (Some 0) = None
   \<and> bboxHeight rectObj / 2 + 1 = 11"
  by (simp add: isGrounded_def ensureBody_def rapierBody_def rectObj_def load_def
      createRigidBody_def createCollider_def updBody_def updCollider_def Let_def
      translateAnchorToCenter_def renderAreaOf_def groundEngine_def pointAt_def
      specGroundRay_def plainEngine_def hasRenderArea_def)

section \<open>Properties of the joint adapter\<close>

lemma jointDataOf_unknown:
  assumes "jointType jo \<notin> {''fixed'', ''prismatic'', ''revolute'', ''rope'', ''spring''}"
  shows "jointDataOf jo = None"
  using assms by (simp add: jointDataOf_def)

lemma jointDataOf_known:
  assumes "jointType jo \<in> {''fixed'', ''prismatic'', ''revolute'', ''rope'', ''spring''}"
  shows "jointDataOf jo \<noteq> None"
  using assms by (auto simp: jointDataOf_def)

text \<open>A spring joint between two bodies is created in the world, and destroying its
  adapter removes it again.\<close>

lemma rapierJoint_spring:
  "fst (rapierJoint plainEngine springOptions None None load
          (rapierBody None circleObj) (rapierBody None shapelessObj)) = Inr 0
   \<and> joints (fst (snd (rapierJoint plainEngine springOptions None None load
                         (rapierBody None circleObj) (rapierBody None shapelessObj)))) 0
       = Some \<lparr> jointParams = Some (SpringJoint 2 20 2 (Vec2 0 0) (Vec2 0 0)),
                body1 = 0, body2 = 1 \<rparr>
   \<and> joints (destroyJoint 0
               (fst (snd (rapierJoint plainEngine springOptions None None load
                            (rapierBody None circleObj) (rapierBody None shapelessObj)))))
       = Map.empty"
  by (simp add: rapierJoint_def jointDataOf_def springOptions_def getRigidBody_def ensureBody_def
      rapierBody_def circleObj_def shapelessObj_def load_def createRigidBody_def
      createCollider_def updBody_def updCollider_def Let_def createImpulseJoint_def
      plainEngine_def destroyJoint_def removeImpulseJoint_def ZERO_def orElse_def)

lemma ensureBody_joints:
  "joints (fst (snd (ensureBody eng opts w a))) = joints w
   \<and> nextJoint (fst (snd (ensureBody eng opts w a))) = nextJoint w"
  by (simp add: ensureBody_def createRigidBody_def createCollider_def updBody_def
      updCollider_def Let_def split: option.splits sum.splits prod.splits)

lemma getRigidBody_joints:
  assumes "getRigidBody eng opts w a = (r, w1, a1)"
  shows "joints w1 = joints w \<and> nextJoint w1 = nextJoint w"
proof -
  from assms have "w1 = fst (snd (ensureBody eng opts w a))"
    by (auto simp: getRigidBody_def split: prod.splits option.splits)
  then show ?thesis by (simp add: ensureBody_joints)
qed

text \<open>When both parents answer with their bodies, the exception of a call with an
  unrecognised kind is the \<open>TypeError\<close> of the null joint data.\<close>

lemma unknown_joint_kind_TypeError:
  assumes "jointType jo \<notin> {''fixed'', ''prismatic'', ''revolute'', ''rope'', ''spring''}"
    and "getRigidBody eng opts1 w p1 = (Inr h1, w1, q1)"
    and "getRigidBody eng opts2 w1 p2 = (Inr h2, w2, q2)"
  shows "rapierJoint eng jo opts1 opts2 w p1 p2 = (Inl TypeError, w2, q1, q2)"
  by (simp add: rapierJoint_def jointDataOf_unknown [OF assms(1)] assms(2,3)
      createImpulseJoint_def)

text \<open>
  Claim C4 (unrecognised joint kind).  For a kind tag that is none of \<open>fixed\<close>,
  \<open>prismatic\<close>, \<open>revolute\<close>, \<open>rope\<close>, \<open>spring\<close>, the joint constructor ends with an
  exception, whatever the engine, the world and the parents are: it returns no adapter,
  and the world it leaves has the joints it had and has created none.
\<close>

theorem unknown_joint_kind:
  assumes "jointType jo \<notin> {''fixed'', ''prismatic'', ''revolute'', ''rope'', ''spring''}"
  shows "\<exists>e w' q1 q2. rapierJoint eng jo opts1 opts2 w p1 p2 = (Inl e, w', q1, q2)
           \<and> joints w' = joints w \<and> nextJoint w' = nextJoint w"
proof -
  have n: "jointDataOf jo = None" by (rule jointDataOf_unknown [OF assms])
  obtain r1 w1 q1 where g1: "getRigidBody eng opts1 w p1 = (r1, w1, q1)"
    by (rule prod_cases3)
  note j1 = getRigidBody_joints [OF g1]
  show ?thesis
  proof (cases r1)
    case (Inl e)
    then have "rapierJoint eng jo opts1 opts2 w p1 p2 = (Inl e, w1, q1, p2)"
      by (simp add: rapierJoint_def g1)
    with j1 show ?thesis by blast
  next
    case (Inr h1)
    obtain r2 w2 q2 where g2: "getRigidBody eng opts2 w1 p2 = (r2, w2, q2)"
      by (rule prod_cases3)
    from getRigidBody_joints [OF g2] j1
    have j2: "joints w2 = joints w \<and> nextJoint w2 = nextJoint w" by simp
    show ?thesis
    proof (cases r2)
      case (Inl e)
      then have "rapierJoint eng jo opts1 opts2 w p1 p2 = (Inl e, w2, q1, q2)"
        by (simp add: rapierJoint_def g1 g2 Inr)
      with j2 show ?thesis by blast
    next
      case h2: (Inr h2)
      have "rapierJoint eng jo opts1 opts2 w p1 p2 = (Inl TypeError, w2, q1, q2)"
        by (simp add: rapierJoint_def g1 g2 Inr h2 n createImpulseJoint_def)
      with j2 show ?thesis by blast
    qed
  qed
qed

theorem unknown_joint_kind_witness:
  "\<exists>e w' q1 q2.
     rapierJoint plainEngine weldOptions None None load
        (rapierBody None circleObj) (rapierBody None shapelessObj)
       = (Inl e, w', q1, q2)
     \<and> joints w' = Map.empty \<and> nextJoint w' = 0"
proof -
  have k: "jointType weldOptions \<notin> {''fixed'', ''prismatic'', ''revolute'', ''rope'', ''spring''}"
    by (simp add: weldOptions_def)
  from unknown_joint_kind [OF k, of plainEngine None None load
      "rapierBody None circleObj" "rapierBody None shapelessObj"]
  show ?thesis by (simp add: load_def)
qed

text \<open>For that call the exception is the \<open>TypeError\<close>, and the two bodies of the parents
  are in the world by then.\<close>

lemma unknown_joint_kind_weld:
  "fst (rapierJoint plainEngine weldOptions None None load
          (rapierBody None circleObj) (rapierBody None shapelessObj)) = Inl TypeError
   \<and> nextBody (fst (snd (rapierJoint plainEngine weldOptions None None load
                           (rapierBody None circleObj) (rapierBody None shapelessObj)))) = 2"
  by (simp add: rapierJoint_def jointDataOf_def weldOptions_def getRigidBody_def ensureBody_def
      rapierBody_def circleObj_def shapelessObj_def load_def createRigidBody_def
      createCollider_def updBody_def updCollider_def Let_def createImpulseJoint_def
      plainEngine_def)

section \<open>The body is created once\<close>

lemma sameBodies_refl: "sameBodies w w"
  by (simp add: sameBodies_def)

lemma sameBodies_trans:
  assumes "sameBodies w1 w2" and "sameBodies w2 w3"
  shows "sameBodies w1 w3"
  using assms by (simp add: sameBodies_def)

lemma sameBodies_updBody: "sameBodies w (updBody h f w)"
  by (auto simp: sameBodies_def updBody_def split: if_splits)

lemma sameBodies_updCollider:
  assumes "\<And>cs. shape (f cs) = shape cs"
  shows "sameBodies w (updCollider c f w)"
  using assms
  by (auto simp: sameBodies_def updCollider_def option.map_comp comp_def split: if_splits)

lemma keeps_here: "keeps w a (r, w, a)"
  by (simp add: keeps_def sameBodies_refl)

lemma keeps_world: "sameBodies w w' \<Longrightarrow> keeps w a (r, w', a)"
  by (simp add: keeps_def)

lemma keeps_outcome: "keeps w a (outcome res) = keeps w a res"
  by (cases res) (auto simp: keeps_def outcome_def split: sum.splits)

lemma withBody_keeps:
  assumes "\<And>h b w1 a1. rbody a1 = Some h \<Longrightarrow> bodies w1 h = Some b \<Longrightarrow> keeps w1 a1 (k h b w1 a1)"
  shows "\<exists>e w1 a1. ensureBody eng opts w a = (e, w1, a1)
           \<and> keeps w1 a1 (withBody eng opts w a k)"
proof -
  obtain e w1 a1 where e: "ensureBody eng opts w a = (e, w1, a1)"
    by (cases "ensureBody eng opts w a") auto
  have "keeps w1 a1 (withBody eng opts w a k)"
    using assms by (auto simp: withBody_def e keeps_here split: option.splits)
  with e show ?thesis by blast
qed

lemma withBody_existing:
  assumes "rbody a = Some h" and "bodies w h = Some b"
  shows "withBody eng opts w a k = k h b w a"
  using assms by (simp add: withBody_def ensureBody_existing [OF assms(1)])

lemma getBounciness_keeps:
  "\<exists>e w1 a1. ensureBody eng opts w a = (e, w1, a1) \<and> keeps w1 a1 (getBounciness eng opts w a)"
  unfolding getBounciness_def
  by (rule withBody_keeps) (auto simp: keeps_here split: sum.splits)

lemma setBounciness_keeps:
  "\<exists>e w1 a1. ensureBody eng opts w a = (e, w1, a1) \<and> keeps w1 a1 (setBounciness eng opts v w a)"
  unfolding setBounciness_def
  by (rule withBody_keeps)
     (auto simp: keeps_here keeps_world sameBodies_updCollider split: sum.splits)

lemma getMass_keeps:
  "\<exists>e w1 a1. ensureBody eng opts w a = (e, w1, a1) \<and> keeps w1 a1 (getMass eng opts w a)"
  unfolding getMass_def
  by (rule withBody_keeps) (simp add: keeps_here)

lemma setMass_keeps:
  "\<exists>e w1 a1. ensureBody eng opts w a = (e, w1, a1) \<and> keeps w1 a1 (setMass eng opts v w a)"
  unfolding setMass_def
  by (rule withBody_keeps)
     (auto simp: keeps_here keeps_world sameBodies_updCollider split: sum.splits)

lemma getGravityScale_keeps:
  "\<exists>e w1 a1. ensureBody eng opts w a = (e, w1, a1) \<and> keeps w1 a1 (getGravityScale eng opts w a)"
  unfolding getGravityScale_def
  by (rule withBody_keeps) (simp add: keeps_here)

lemma setGravityScale_keeps:
  "\<exists>e w1 a1. ensureBody eng opts w a = (e, w1, a1)
     \<and> keeps w1 a1 (setGravityScale eng opts v w a)"
  unfolding setGravityScale_def
  by (rule withBody_keeps) (simp add: keeps_world sameBodies_updBody)

lemma getVelocity_keeps:
  "\<exists>e w1 a1. ensureBody eng opts w a = (e, w1, a1) \<and> keeps w1 a1 (getVelocity eng opts w a)"
  unfolding getVelocity_def
  by (rule withBody_keeps) (simp add: keeps_here)

lemma viewSet_sameBodies: "sameBodies w (fst (snd (viewSet p v w view)))"
  by (auto simp: viewSet_def sameBodies_refl sameBodies_updBody
      split: propKey.splits option.splits)

lemma writeVelocity_keeps:
  "\<exists>e w1 a1. ensureBody eng opts w a = (e, w1, a1)
     \<and> keeps w1 a1 (writeVelocity eng opts p v w a)"
proof -
  from getVelocity_keeps [of eng opts w a]
  obtain e w1 a1 where e: "ensureBody eng opts w a = (e, w1, a1)"
    and k: "keeps w1 a1 (getVelocity eng opts w a)"
    by blast
  obtain r w2 a2 where g: "getVelocity eng opts w a = (r, w2, a2)"
    by (cases "getVelocity eng opts w a") auto
  have "keeps w1 a1 (writeVelocity eng opts p v w a)"
  proof (cases r)
    case (Inl x)
    with k g show ?thesis by (simp add: writeVelocity_def keeps_def)
  next
    case (Inr view)
    obtain r3 w3 v3 where s: "viewSet p v w2 view = (r3, w3, v3)"
      by (cases "viewSet p v w2 view") auto
    from viewSet_sameBodies [of w2 p v view] s have "sameBodies w2 w3" by simp
    with k g Inr s show ?thesis
      by (auto simp: writeVelocity_def keeps_def intro: sameBodies_trans)
  qed
  with e show ?thesis by blast
qed

lemma setVelocity_keeps:
  "\<exists>e w1 a1. ensureBody eng opts w a = (e, w1, a1) \<and> keeps w1 a1 (setVelocity eng opts v w a)"
  unfolding setVelocity_def
  by (rule withBody_keeps) (simp add: keeps_world sameBodies_updBody)

lemma jump_keeps:
  "\<exists>e w1 a1. ensureBody eng opts w a = (e, w1, a1) \<and> keeps w1 a1 (jump eng opts pw w a)"
  unfolding jump_def
  by (rule withBody_keeps) (simp add: keeps_world sameBodies_updBody Let_def)

lemma isGrounded_keeps:
  "\<exists>e w1 a1. ensureBody eng opts w a = (e, w1, a1) \<and> keeps w1 a1 (isGrounded eng opts w a)"
  by (cases "ensureBody eng opts w a")
     (auto simp: isGrounded_def keeps_here Let_def split: option.splits)

lemma isFalling_keeps:
  "\<exists>e w1 a1. ensureBody eng opts w a = (e, w1, a1) \<and> keeps w1 a1 (isFalling eng opts w a)"
  using isGrounded_keeps [of eng opts w a]
  by (auto simp: isFalling_def keeps_def split: prod.splits sum.splits)

lemma getRigidBody_keeps:
  "\<exists>e w1 a1. ensureBody eng opts w a = (e, w1, a1) \<and> keeps w1 a1 (getRigidBody eng opts w a)"
  by (cases "ensureBody eng opts w a")
     (auto simp: getRigidBody_def keeps_here split: option.splits)

lemma lockPosition_keeps:
  "\<exists>e w1 a1. ensureBody eng opts w a = (e, w1, a1) \<and> keeps w1 a1 (lockPosition eng opts l w a)"
  unfolding lockPosition_def
  by (rule withBody_keeps) (simp add: keeps_world sameBodies_updBody)

lemma lockRotation_keeps:
  "\<exists>e w1 a1. ensureBody eng opts w a = (e, w1, a1) \<and> keeps w1 a1 (lockRotation eng opts l w a)"
  unfolding lockRotation_def
  by (rule withBody_keeps) (simp add: keeps_world sameBodies_updBody)

lemma addForce_keeps:
  "\<exists>e w1 a1. ensureBody eng opts w a = (e, w1, a1) \<and> keeps w1 a1 (addForce eng opts v w a)"
  unfolding addForce_def
  by (rule withBody_keeps) (simp add: keeps_world sameBodies_updBody)

lemma applyImpulse_keeps:
  "\<exists>e w1 a1. ensureBody eng opts w a = (e, w1, a1) \<and> keeps w1 a1 (applyImpulse eng opts v w a)"
  unfolding applyImpulse_def
  by (rule withBody_keeps) (simp add: keeps_world sameBodies_updBody)

lemma applyTorqueImpulse_keeps:
  "\<exists>e w1 a1. ensureBody eng opts w a = (e, w1, a1)
     \<and> keeps w1 a1 (applyTorqueImpulse eng opts t w a)"
  unfolding applyTorqueImpulse_def
  by (rule withBody_keeps) (simp add: keeps_world sameBodies_updBody)

lemma translate_keeps:
  "\<exists>e w1 a1. ensureBody eng opts w a = (e, w1, a1) \<and> keeps w1 a1 (translate eng opts args w a)"
  unfolding translate_def
  by (rule withBody_keeps) (simp add: keeps_world sameBodies_updBody)

lemma translateX_keeps:
  "\<exists>e w1 a1. ensureBody eng opts w a = (e, w1, a1) \<and> keeps w1 a1 (translateX eng opts v w a)"
  unfolding translateX_def
  by (rule withBody_keeps) (simp add: keeps_world sameBodies_updBody)

lemma translateY_keeps:
  "\<exists>e w1 a1. ensureBody eng opts w a = (e, w1, a1) \<and> keeps w1 a1 (translateY eng opts v w a)"
  unfolding translateY_def
  by (rule withBody_keeps) (simp add: keeps_world sameBodies_updBody)

lemma update_keeps:
  "\<exists>e w1 a1. ensureBody eng opts w a = (e, w1, a1) \<and> keeps w1 a1 (update eng opts w a)"
  unfolding update_def Let_def
  by (rule withBody_keeps) (simp add: keeps_def sameBodies_refl)

lemma inspect_keeps:
  "\<exists>e w1 a1. ensureBody eng opts w a = (e, w1, a1) \<and> keeps w1 a1 (inspect eng opts w a)"
  unfolding inspect_def Let_def
proof (rule withBody_keeps)
  fix h :: nat and b :: rigidBody and w1 :: world and a1 :: adapter
  assume h: "rbody a1 = Some h" and b: "bodies w1 h = Some b"
  have m: "getMass eng opts w1 a1 = (Inr (bodyMass eng w1 h), w1, a1)"
    by (simp add: getMass_def withBody_existing [OF h b])
  have g: "getGravityScale eng opts w1 a1 = (Inr (bodyGravityScale b), w1, a1)"
    by (simp add: getGravityScale_def withBody_existing [OF h b])
  show "keeps w1 a1
          (case getMass eng opts w1 a1 of
             (Inl e, w2, a2) \<Rightarrow> (Inl e, w2, a2)
           | (Inr m, w2, a2) \<Rightarrow>
               (case getGravityScale eng opts w2 a2 of
                  (Inl e, w3, a3) \<Rightarrow> (Inl e, w3, a3)
                | (Inr g, w3, a3) \<Rightarrow> (Inr (m, g, linvel b), w3, a3)))"
    by (simp add: m g keeps_here)
qed

lemma runOp_keeps:
  "\<exists>e w1 a1. ensureBody eng opts w a = (e, w1, a1) \<and> keeps w1 a1 (runOp eng opts op w a)"
  by (cases op)
     (simp_all add: keeps_outcome getBounciness_keeps setBounciness_keeps getMass_keeps
        setMass_keeps getGravityScale_keeps setGravityScale_keeps getVelocity_keeps
        writeVelocity_keeps setVelocity_keeps jump_keeps isGrounded_keeps isFalling_keeps
        getRigidBody_keeps lockPosition_keeps lockRotation_keeps addForce_keeps
        applyImpulse_keeps applyTorqueImpulse_keeps translate_keeps translateX_keeps
        translateY_keeps update_keeps inspect_keeps)


lemma ensureBody_fresh_creates:
  assumes "rbody a = None"
  shows "\<exists>e w1 a1. ensureBody eng opts w a = (e, w1, a1)
           \<and> rbody a1 = Some (nextBody w) \<and> nextBody w1 = Suc (nextBody w)"
  using assms
  by (simp add: ensureBody_def createRigidBody_def createCollider_def updBody_def
      updCollider_def Let_def split: option.splits)

lemma runOp_existing:
  assumes "rbody a = Some h"
  shows "keeps w a (runOp eng opts op w a)"
  using runOp_keeps [of eng opts w a op] ensureBody_existing [OF assms, of eng opts w]
  by simp

lemma runOp_fresh:
  assumes "rbody a = None"
  shows "case runOp eng opts op w a of
           (r, w', a') \<Rightarrow> rbody a' = Some (nextBody w) \<and> nextBody w' = Suc (nextBody w)"
proof -
  from ensureBody_fresh_creates [OF assms, of eng opts w]
  obtain e w1 a1 where e: "ensureBody eng opts w a = (e, w1, a1)"
    and r: "rbody a1 = Some (nextBody w)" and n: "nextBody w1 = Suc (nextBody w)"
    by blast
  from runOp_keeps [of eng opts w a op] e
  have "keeps w1 a1 (runOp eng opts op w a)" by simp
  with r n show ?thesis
    by (auto simp: keeps_def sameBodies_def)
qed

lemma runOps_existing:
  assumes "rbody a = Some h"
  shows "case runOps eng opts steps w a of
           (w', a') \<Rightarrow> sameBodies w w' \<and> rbody a' = Some h \<and> collider a' = collider a"
  using assms
proof (induction steps arbitrary: w a)
  case Nil
  then show ?case by (simp add: sameBodies_refl)
next
  case (Cons s steps)
  obtain m op where s: "s = (m, op)" by (cases s)
  let ?a = "a\<lparr>self := m (self a)\<rparr>"
  obtain r w1 a1 where o: "runOp eng opts op w ?a = (r, w1, a1)"
    by (cases "runOp eng opts op w ?a") auto
  have "rbody ?a = Some h" using Cons.prems by simp
  from runOp_existing [OF this, of w eng opts op] o
  have k: "sameBodies w w1" "rbody a1 = Some h" "collider a1 = collider a"
    using Cons.prems by (simp_all add: keeps_def)
  obtain w2 a2 where r: "runOps eng opts steps w1 a1 = (w2, a2)"
    by (cases "runOps eng opts steps w1 a1") auto
  from Cons.IH [OF k(2), of w1] r
  have "sameBodies w1 w2" "rbody a2 = Some h" "collider a2 = collider a1"
    by simp_all
  with k s o r show ?case
    by (auto intro: sameBodies_trans)
qed

text \<open>
  Claim C9 (created at most once).  For an adapter that has its body, \<open>ensureBody\<close> does
  nothing, and after any history of public operations, with the game object changed in
  any way before each of them (its shape included): the adapter has the same body and the
  same collider, no body and no collider was created, the bodies and colliders in the
  world are the same ones, and every collider has the shape it had.  For an adapter that
  has no body yet, a history of at least one operation creates exactly one body, in its
  first operation.
\<close>

theorem body_created_once:
  "(\<forall>h. rbody a = Some h \<longrightarrow>
      ensureBody eng opts w a = (None, w, a)
      \<and> (case runOps eng opts steps w a of
            (w', a') \<Rightarrow>
              rbody a' = Some h \<and> collider a' = collider a
              \<and> nextBody w' = nextBody w \<and> nextCollider w' = nextCollider w
              \<and> dom (bodies w') = dom (bodies w)
              \<and> dom (colliders w') = dom (colliders w)
              \<and> (\<forall>c. map_option shape (colliders w' c) = map_option shape (colliders w c))))
   \<and> (rbody a = None \<and> steps \<noteq> [] \<longrightarrow>
      (case runOps eng opts steps w a of
         (w', a') \<Rightarrow> rbody a' = Some (nextBody w) \<and> nextBody w' = Suc (nextBody w)))"
proof (intro conjI allI impI)
  fix h assume h: "rbody a = Some h"
  show "ensureBody eng opts w a = (None, w, a)"
    by (rule ensureBody_existing [OF h])
  from runOps_existing [OF h, where eng = eng and opts = opts and steps = steps and w = w]
  show "case runOps eng opts steps w a of
            (w', a') \<Rightarrow>
              rbody a' = Some h \<and> collider a' = collider a
              \<and> nextBody w' = nextBody w \<and> nextCollider w' = nextCollider w
              \<and> dom (bodies w') = dom (bodies w)
              \<and> dom (colliders w') = dom (colliders w)
              \<and> (\<forall>c. map_option shape (colliders w' c) = map_option shape (colliders w c))"
    by (simp add: sameBodies_def split: prod.splits)
next
  assume f: "rbody a = None \<and> steps \<noteq> []"
  then obtain m op rest where st: "steps = (m, op) # rest"
    by (cases steps) auto
  let ?a = "a\<lparr>self := m (self a)\<rparr>"
  obtain r w1 a1 where o: "runOp eng opts op w ?a = (r, w1, a1)"
    by (cases "runOp eng opts op w ?a") auto
  have "rbody ?a = None" using f by simp
  from runOp_fresh [OF this, where eng = eng and opts = opts and op = op and w = w] o
  have k: "rbody a1 = Some (nextBody w)" "nextBody w1 = Suc (nextBody w)"
    by simp_all
  from runOps_existing [OF k(1), where eng = eng and opts = opts and steps = rest and w = w1] k
  have "case runOps eng opts rest w1 a1 of
          (w', a') \<Rightarrow> rbody a' = Some (nextBody w) \<and> nextBody w' = Suc (nextBody w)"
    by (simp add: sameBodies_def split: prod.splits)
  with st o show "case runOps eng opts steps w a of
         (w', a') \<Rightarrow> rbody a' = Some (nextBody w) \<and> nextBody w' = Suc (nextBody w)"
    by simp
qed


theorem body_created_once_witness:
  "\<exists>w1 a1.
     ensureBody plainEngine None load (rapierBody None rectObj) = (None, w1, a1)
     \<and> (case runOps plainEngine None
               [(\<lambda>ob. ob\<lparr>width := 100, height := 100\<rparr>, Update), (\<lambda>ob. ob, Jump None)] w1 a1 of
          (w', a') \<Rightarrow>
            rbody a' = Some 0 \<and> collider a' = Some 0 \<and> nextBody w' = 1
            \<and> map_option shape (colliders w' 0) = Some (Cuboid 5 10))
     \<and> (case runOps plainEngine None
               [(\<lambda>ob. ob\<lparr>width := 100, height := 100\<rparr>, Update), (\<lambda>ob. ob, Jump None)]
               load (rapierBody None rectObj) of
          (w', a') \<Rightarrow> rbody a' = Some 0 \<and> nextBody w' = 1)"
proof -
  define steps :: "((gameObj \<Rightarrow> gameObj) \<times> bodyOp) list"
    where "steps = [(\<lambda>ob. ob\<lparr>width := 100, height := 100\<rparr>, Update), (\<lambda>ob. ob, Jump None)]"
  have ne: "steps \<noteq> []" by (simp add: steps_def)
  obtain w1 a1 where e:
    "ensureBody plainEngine None load (rapierBody None rectObj) = (None, w1, a1)"
    and h: "rbody a1 = Some 0" and c: "collider a1 = Some 0" and n: "nextBody w1 = 1"
    and sh: "map_option shape (colliders w1 0) = Some (Cuboid 5 10)"
    by (simp add: ensureBody_def rapierBody_def rectObj_def load_def createRigidBody_def
        createCollider_def updBody_def updCollider_def Let_def)
  obtain w2 a2 where r2: "runOps plainEngine None steps w1 a1 = (w2, a2)"
    by (rule prod.exhaust)
  from body_created_once [where a = a1 and eng = plainEngine and opts = None
      and w = w1 and steps = steps, THEN conjunct1, rule_format, OF h, THEN conjunct2]
  have k: "rbody a2 = Some 0 \<and> collider a2 = collider a1
      \<and> nextBody w2 = nextBody w1 \<and> nextCollider w2 = nextCollider w1
      \<and> dom (bodies w2) = dom (bodies w1)
      \<and> dom (colliders w2) = dom (colliders w1)
      \<and> (\<forall>c. map_option shape (colliders w2 c) = map_option shape (colliders w1 c))"
    unfolding r2 prod.case .
  then have "map_option shape (colliders w2 0) = map_option shape (colliders w1 0)"
    by (elim conjE) (erule allE [of _ 0])
  with k c n sh have first:
    "rbody a2 = Some 0 \<and> collider a2 = Some 0 \<and> nextBody w2 = 1
     \<and> map_option shape (colliders w2 0) = Some (Cuboid 5 10)"
    by simp
  obtain w3 a3 where r3: "runOps plainEngine None steps load (rapierBody None rectObj) = (w3, a3)"
    by (rule prod.exhaust)
  have f: "rbody (rapierBody None rectObj) = None \<and> steps \<noteq> []"
    using ne by (simp add: rapierBody_def)
  from body_created_once [where a = "rapierBody None rectObj" and eng = plainEngine
      and opts = None and w = load and steps = steps, THEN conjunct2, rule_format, OF f]
  have "rbody a3 = Some (nextBody load) \<and> nextBody w3 = Suc (nextBody load)"
    unfolding r3 prod.case .
  then have second: "rbody a3 = Some 0 \<and> nextBody w3 = 1"
    by (simp add: load_def)
  have "ensureBody plainEngine None load (rapierBody None rectObj) = (None, w1, a1)
     \<and> (case runOps plainEngine None steps w1 a1 of
          (w', a') \<Rightarrow>
            rbody a' = Some 0 \<and> collider a' = Some 0 \<and> nextBody w' = 1
            \<and> map_option shape (colliders w' 0) = Some (Cuboid 5 10))
     \<and> (case runOps plainEngine None steps load (rapierBody None rectObj) of
          (w', a') \<Rightarrow> rbody a' = Some 0 \<and> nextBody w' = 1)"
    unfolding r2 r3 prod.case using e first second by (intro conjI) (elim conjE, assumption)+
  then show ?thesis
    unfolding steps_def by (intro exI [of _ w1] exI [of _ a1])
qed

end
